theory Spec2Isabelle
  imports Complex_Main "HOL-Library.Word" "HOL-Library.Log_Nat"
begin

section \<open>Numbers, vectors and colours\<close>

text \<open>
  The program is the class \<^verbatim>\<open>NeuralNetworkAnimation\<close>. Its numbers are JavaScript
  numbers; they are modelled as \<^typ>\<open>real\<close> with exact arithmetic. The scalar blend and
  the bounce curve are also read with IEEE-754 double rounding, where a claim is about
  the exact value of a result.
  \<^verbatim>\<open>Math.round(v)\<close> is \<open>\<lfloor>v + 1/2\<rfloor>\<close>. \<^verbatim>\<open>Math.pow(b, 3)\<close> is \<open>b ^ 3\<close>;
  \<^verbatim>\<open>Math.pow(2, e)\<close> is \<open>2 powr e\<close>.
\<close>

definition Math_round :: "real \<Rightarrow> int" where
  "Math_round v = \<lfloor>v + 1 / 2\<rfloor>"

text \<open>\<^verbatim>\<open>THREE.Vector3\<close>: three number fields.\<close>

record vec3 =
  vec_x :: real
  vec_y :: real
  vec_z :: real

definition Vector3 :: "real \<Rightarrow> real \<Rightarrow> real \<Rightarrow> vec3" where
  "Vector3 a b c = \<lparr>vec_x = a, vec_y = b, vec_z = c\<rparr>"

definition vec_add :: "vec3 \<Rightarrow> vec3 \<Rightarrow> vec3" where
  "vec_add u v = Vector3 (vec_x u + vec_x v) (vec_y u + vec_y v) (vec_z u + vec_z v)"

definition multiplyScalar :: "vec3 \<Rightarrow> real \<Rightarrow> vec3" where
  "multiplyScalar v s = Vector3 (vec_x v * s) (vec_y v * s) (vec_z v * s)"

definition distanceTo :: "vec3 \<Rightarrow> vec3 \<Rightarrow> real" where
  "distanceTo u v =
     sqrt ((vec_x u - vec_x v) * (vec_x u - vec_x v)
         + (vec_y u - vec_y v) * (vec_y u - vec_y v)
         + (vec_z u - vec_z v) * (vec_z u - vec_z v))"

section \<open>Easing curves and the scalar blend\<close>

text \<open>
  \<^verbatim>\<open>getEasingFunction(type)\<close>: a switch on the name of the curve, with the identity
  as the default case. In the bounce curve the source writes
  \<^verbatim>\<open>n1 * (t -= 1.5 / d1) * t + 0.75\<close>: the assignment happens first, so both
  factors are the shifted \<open>t\<close>.
\<close>

definition bounce :: "real \<Rightarrow> real" where
  "bounce t =
     (let n1 = 7.5625; d1 = 2.75 in
      if t < 1 / d1 then n1 * t * t
      else if t < 2 / d1 then (let t' = t - 1.5 / d1 in n1 * t' * t' + 0.75)
      else if t < 2.5 / d1 then (let t' = t - 2.25 / d1 in n1 * t' * t' + 0.9375)
      else (let t' = t - 2.625 / d1 in n1 * t' * t' + 0.984375))"

definition elastic :: "real \<Rightarrow> real" where
  "elastic t =
     (let c4 = (2 * pi) / 3 in
      if t = 0 then 0
      else if t = 1 then 1
      else - (2 powr (10 * t - 10)) * sin ((t * 10 - 10.75) * c4))"

definition getEasingFunction :: "string \<Rightarrow> real \<Rightarrow> real" where
  "getEasingFunction type =
     (if type = ''linear'' then (\<lambda>t. t)
      else if type = ''ease-in'' then (\<lambda>t. t * t * t)
      else if type = ''ease-out'' then (\<lambda>t. 1 - (1 - t) ^ 3)
      else if type = ''ease-in-out'' then
        (\<lambda>t. if t < 0.5 then 4 * t * t * t else 1 - (- 2 * t + 2) ^ 3 / 2)
      else if type = ''bounce'' then bounce
      else if type = ''elastic'' then elastic
      else (\<lambda>t. t))"

definition lerp :: "real \<Rightarrow> real \<Rightarrow> real \<Rightarrow> real" where
  "lerp start end t = start + (end - start) * t"

section \<open>Presets and the state of the animation\<close>

text \<open>
  Modelled from the spec: \<^verbatim>\<open>THREE.Color\<close> belongs to the three.js library and is
  not part of the repository. A colour is a hex string \<^verbatim>\<open>#RRGGBB\<close>, that is three
  8-bit channels. \<^verbatim>\<open>lerpColor\<close> parses both strings, blends every channel linearly in
  RGB space on the scale 0 to 1, and prints the result as a hex string again, which rounds
  every channel to the nearest of the 256 levels after clamping it to the range.
\<close>

record color =
  red :: "8 word"
  green :: "8 word"
  blue :: "8 word"

definition lerpChannel :: "8 word \<Rightarrow> 8 word \<Rightarrow> real \<Rightarrow> 8 word" where
  "lerpChannel a b t =
     (let s = real (unat a) / 255; e = real (unat b) / 255; c = s + (e - s) * t
      in word_of_int (Math_round (max 0 (min 255 (c * 255)))))"

definition lerpColor :: "color \<Rightarrow> color \<Rightarrow> real \<Rightarrow> color" where
  "lerpColor startColor endColor t =
     \<lparr>red = lerpChannel (red startColor) (red endColor) t,
      green = lerpChannel (green startColor) (green endColor) t,
      blue = lerpChannel (blue startColor) (blue endColor) t\<rparr>"

text \<open>
  \<^verbatim>\<open>PresetData\<close>: the flat record of every tunable value. The two counts are
  integers: the sliders store \<^verbatim>\<open>Math.floor\<close> of their value and a transition stores
  \<^verbatim>\<open>Math.round\<close> of the blend.
\<close>

record preset =
  name :: string
  nodeCount :: int
  nodeSpeed :: real
  activitySpeed :: real
  connectionOpacity :: real
  spaceSize :: real
  mouseInfluenceRadius :: real
  backgroundColor :: color
  nodeColor :: color
  connectionColor :: color
  showAllConnections :: bool
  particleCount :: int
  particleSpeed :: real
  particleSize :: real
  particleColor :: color
  showParticles :: bool
  rippleIntensity :: real
  rippleDuration :: real
  rippleSize :: real
  rippleColor :: color
  showRipples :: bool
  wallRestitution :: real
  wallFriction :: real

text \<open>\<^verbatim>\<open>NodeData\<close>, with the rotation of its mesh. The material of the mesh is not modelled.\<close>

record node =
  position :: vec3
  velocity :: vec3
  targetPosition :: vec3
  activity :: real
  baseColor :: color
  mass :: real
  restitution :: real
  friction :: real
  angularVelocity :: vec3
  lastCollisionTime :: real
  rotation :: vec3

text \<open>
  \<^verbatim>\<open>ParticleData\<close>. The source holds references to the two node objects; the model
  holds their indices at the time of the spawn. The opacity is that of the mesh material.
\<close>

record particle =
  startNode :: nat
  endNode :: nat
  progress :: real
  speed :: real
  lifespan :: real
  particle_age :: real
  particle_opacity :: real

text \<open>
  \<^verbatim>\<open>RippleData\<close>, with the scale of its mesh and the two shader uniforms the update
  writes (\<^verbatim>\<open>opacity\<close>, \<^verbatim>\<open>radius\<close>).
\<close>

record ripple =
  ripple_position :: vec3
  normal :: vec3
  age :: real
  maxAge :: real
  maxRadius :: real
  wallType :: string
  ripple_scale :: real
  ripple_opacity :: real
  ripple_radius :: real

text \<open>
  \<^verbatim>\<open>Math.random()\<close>: an unknown sequence of numbers and the position of the next
  draw. Every draw returns the next number and advances the position.
\<close>

record rng =
  rand :: "nat \<Rightarrow> real"
  randPos :: nat

definition random :: "rng \<Rightarrow> real \<times> rng" where
  "random g = (rand g (randPos g), g\<lparr>randPos := randPos g + 1\<rparr>)"

text \<open>
  The fields of the class. It keeps every field of a preset as a field of its own
  (\<^verbatim>\<open>this.nodeSpeed\<close>, ...), so the state extends the preset record; the field
  \<open>name\<close> of the state is \<^verbatim>\<open>this.currentPresetName\<close>. The scene graph, the control
  panel and the connection lines are not modelled.
\<close>

record anim = preset +
  nodes :: "node list"
  particles :: "particle list"
  ripples :: "ripple list"
  isTransitioning :: bool
  transitionStartTime :: real
  transitionDuration :: real
  transitionEasing :: string
  fromPreset :: "preset option"
  toPreset :: "preset option"
  camera_fov :: real
  camera_aspect :: real
  rng :: rng

definition getCurrentPreset :: "anim \<Rightarrow> preset" where
  "getCurrentPreset st = preset.truncate st"

section \<open>The box and the motion of the nodes\<close>

text \<open>
  The box is derived from the camera frustum at depth 20, as \<^verbatim>\<open>updateNodes\<close>,
  \<^verbatim>\<open>createNodes\<close> and \<^verbatim>\<open>createBoxEnvironment\<close> all compute it.
\<close>

definition frustumHeight :: "anim \<Rightarrow> real" where
  "frustumHeight st = (let depth = 20; fov = camera_fov st * pi / 180 in 2 * tan (fov / 2) * depth)"

definition frustumWidth :: "anim \<Rightarrow> real" where
  "frustumWidth st = frustumHeight st * camera_aspect st"

definition boundaryX :: "anim \<Rightarrow> real" where
  "boundaryX st = frustumWidth st * 0.5"

definition boundaryY :: "anim \<Rightarrow> real" where
  "boundaryY st = frustumHeight st * 0.5"

definition boundaryZ :: real where
  "boundaryZ = 20 * 0.4"

definition minTimeBetweenCollisions :: real where
  "minTimeBetweenCollisions = 0.1"

definition createRipple :: "anim \<Rightarrow> vec3 \<Rightarrow> vec3 \<Rightarrow> string \<Rightarrow> ripple" where
  "createRipple st pos nrm wall =
     (let rippleRadius = 4.0 * rippleIntensity st * rippleSize st in
      \<lparr>ripple_position = pos, normal = nrm, age = 0, maxAge = rippleDuration st,
       maxRadius = rippleRadius, wallType = wall,
       ripple_scale = 1, ripple_opacity = 0.6, ripple_radius = 0.1\<rparr>)"

text \<open>
  The part every collision branch repeats after it has changed the velocity: three draws
  for the angular impulse, the time stamp, and, for every wall but the front one, the
  ripple when ripples are shown.
\<close>

definition impulse :: "real \<Rightarrow> rng \<Rightarrow> vec3 \<times> rng" where
  "impulse impactSpeed g =
     (let (r1, g1) = random g; (r2, g2) = random g1; (r3, g3) = random g2 in
      (Vector3 ((r1 - 0.5) * impactSpeed * 0.1) ((r2 - 0.5) * impactSpeed * 0.1)
         ((r3 - 0.5) * impactSpeed * 0.1), g3))"

definition impact :: "real \<Rightarrow> real \<Rightarrow> vec3 \<Rightarrow> node \<Rightarrow> anim \<Rightarrow> node \<times> anim" where
  "impact time impactSpeed v n st =
     (let (imp, g) = impulse impactSpeed (rng st) in
      (n\<lparr>velocity := v, angularVelocity := vec_add (angularVelocity n) imp,
         lastCollisionTime := time\<rparr>,
       st\<lparr>rng := g\<rparr>))"

definition emitRipple :: "vec3 \<Rightarrow> vec3 \<Rightarrow> string \<Rightarrow> anim \<Rightarrow> anim" where
  "emitRipple pos nrm wall st =
     (if showRipples st then st\<lparr>ripples := ripples st @ [createRipple st pos nrm wall]\<rparr>
      else st)"

definition reflectX :: "node \<Rightarrow> anim \<Rightarrow> vec3" where
  "reflectX n st =
     Vector3 (- vec_x (velocity n) * (restitution n * wallRestitution st))
       (vec_y (velocity n) * wallFriction st) (vec_z (velocity n) * wallFriction st)"

definition reflectY :: "node \<Rightarrow> anim \<Rightarrow> vec3" where
  "reflectY n st =
     Vector3 (vec_x (velocity n) * wallFriction st)
       (- vec_y (velocity n) * (restitution n * wallRestitution st))
       (vec_z (velocity n) * wallFriction st)"

definition reflectZ :: "node \<Rightarrow> anim \<Rightarrow> vec3" where
  "reflectZ n st =
     Vector3 (vec_x (velocity n) * wallFriction st) (vec_y (velocity n) * wallFriction st)
       (- vec_z (velocity n) * (restitution n * wallRestitution st))"

text \<open>
  The three collision tests of \<^verbatim>\<open>updateNodes\<close>, in the order of the source. Each
  works on the node, the state and the flag \<^verbatim>\<open>collisionOccurred\<close>.
\<close>

definition collideX :: "real \<Rightarrow> node \<times> anim \<times> bool \<Rightarrow> node \<times> anim \<times> bool" where
  "collideX time = (\<lambda>(n, st, c).
     if vec_x (position n) > boundaryX st then
       (let n1 = n\<lparr>position := (position n)\<lparr>vec_x := boundaryX st\<rparr>\<rparr> in
        if vec_x (velocity n1) > 0 \<and> time - lastCollisionTime n1 > minTimeBetweenCollisions then
          (let (n2, st2) = impact time \<bar>vec_x (velocity n1)\<bar> (reflectX n1 st) n1 st in
           (n2, emitRipple (Vector3 (boundaryX st) (vec_y (position n2)) (vec_z (position n2)))
                  (Vector3 (- 1) 0 0) ''right'' st2, True))
        else (n1, st, c))
     else if vec_x (position n) < - boundaryX st then
       (let n1 = n\<lparr>position := (position n)\<lparr>vec_x := - boundaryX st\<rparr>\<rparr> in
        if vec_x (velocity n1) < 0 \<and> time - lastCollisionTime n1 > minTimeBetweenCollisions then
          (let (n2, st2) = impact time \<bar>vec_x (velocity n1)\<bar> (reflectX n1 st) n1 st in
           (n2, emitRipple (Vector3 (- boundaryX st) (vec_y (position n2)) (vec_z (position n2)))
                  (Vector3 1 0 0) ''left'' st2, True))
        else (n1, st, c))
     else (n, st, c))"

definition collideY :: "real \<Rightarrow> node \<times> anim \<times> bool \<Rightarrow> node \<times> anim \<times> bool" where
  "collideY time = (\<lambda>(n, st, c).
     if vec_y (position n) > boundaryY st then
       (let n1 = n\<lparr>position := (position n)\<lparr>vec_y := boundaryY st\<rparr>\<rparr> in
        if vec_y (velocity n1) > 0 \<and> time - lastCollisionTime n1 > minTimeBetweenCollisions then
          (let (n2, st2) = impact time \<bar>vec_y (velocity n1)\<bar> (reflectY n1 st) n1 st in
           (n2, emitRipple (Vector3 (vec_x (position n2)) (boundaryY st) (vec_z (position n2)))
                  (Vector3 0 (- 1) 0) ''ceiling'' st2, True))
        else (n1, st, c))
     else if vec_y (position n) < - boundaryY st then
       (let n1 = n\<lparr>position := (position n)\<lparr>vec_y := - boundaryY st\<rparr>\<rparr> in
        if vec_y (velocity n1) < 0 \<and> time - lastCollisionTime n1 > minTimeBetweenCollisions then
          (let (n2, st2) = impact time \<bar>vec_y (velocity n1)\<bar> (reflectY n1 st) n1 st in
           (n2, emitRipple (Vector3 (vec_x (position n2)) (- boundaryY st) (vec_z (position n2)))
                  (Vector3 0 1 0) ''floor'' st2, True))
        else (n1, st, c))
     else (n, st, c))"

definition collideZ :: "real \<Rightarrow> node \<times> anim \<times> bool \<Rightarrow> node \<times> anim \<times> bool" where
  "collideZ time = (\<lambda>(n, st, c).
     if vec_z (position n) > boundaryZ then
       (let n1 = n\<lparr>position := (position n)\<lparr>vec_z := boundaryZ\<rparr>\<rparr> in
        if vec_z (velocity n1) > 0 \<and> time - lastCollisionTime n1 > minTimeBetweenCollisions then
          (let (n2, st2) = impact time \<bar>vec_z (velocity n1)\<bar> (reflectZ n1 st) n1 st in
           (n2, st2, True))
        else (n1, st, c))
     else if vec_z (position n) < - boundaryZ then
       (let n1 = n\<lparr>position := (position n)\<lparr>vec_z := - boundaryZ\<rparr>\<rparr> in
        if vec_z (velocity n1) < 0 \<and> time - lastCollisionTime n1 > minTimeBetweenCollisions then
          (let (n2, st2) = impact time \<bar>vec_z (velocity n1)\<bar> (reflectZ n1 st) n1 st in
           (n2, emitRipple (Vector3 (vec_x (position n2)) (vec_y (position n2)) (- boundaryZ))
                  (Vector3 0 0 1) ''back'' st2, True))
        else (n1, st, c))
     else (n, st, c))"

text \<open>
  The body of the \<^verbatim>\<open>forEach\<close> of \<^verbatim>\<open>updateNodes\<close> for the node at \<open>index\<close>:
  activity, motion, the three collision tests, damping of the angular velocity, and the
  rotation of the mesh. \<open>time\<close> is \<^verbatim>\<open>this.clock.getElapsedTime()\<close>. The influence of
  the pointer changes the scale and the colour of the mesh only and is left out.
\<close>

definition moved :: "anim \<Rightarrow> node \<Rightarrow> vec3" where
  "moved st n = vec_add (position n) (multiplyScalar (velocity n) (nodeSpeed st))"

definition spin :: "anim \<Rightarrow> bool \<Rightarrow> node \<Rightarrow> node" where
  "spin st collisionOccurred n =
     (let r = vec_add (rotation n) (angularVelocity n) in
      n\<lparr>rotation :=
          (if \<not> collisionOccurred
           then vec_add r (Vector3 (0.005 * nodeSpeed st) (0.008 * nodeSpeed st) (0.003 * nodeSpeed st))
           else r)\<rparr>)"

definition integrate :: "real \<Rightarrow> nat \<Rightarrow> anim \<Rightarrow> node \<Rightarrow> node" where
  "integrate time index st n =
     (let n0 = n\<lparr>activity := (sin (time * activitySpeed st + real index) + 1) * 0.5\<rparr>
      in n0\<lparr>position := moved st n0\<rparr>)"

definition stepNode :: "real \<Rightarrow> nat \<Rightarrow> node \<Rightarrow> anim \<Rightarrow> node \<times> anim" where
  "stepNode time index n st =
     (let n1 = integrate time index st n;
          (n2, st2, c2) = collideZ time (collideY time (collideX time (n1, st, False)));
          n3 = n2\<lparr>angularVelocity := multiplyScalar (angularVelocity n2) 0.98\<rparr>
      in (spin st2 c2 n3, st2))"

fun updateNodesFrom :: "real \<Rightarrow> nat \<Rightarrow> node list \<Rightarrow> anim \<Rightarrow> node list \<times> anim" where
  "updateNodesFrom time index [] st = ([], st)"
| "updateNodesFrom time index (n # ns) st =
     (let (n', st') = stepNode time index n st;
          (ns', st'') = updateNodesFrom time (Suc index) ns st'
      in (n' # ns', st''))"

definition updateNodes :: "real \<Rightarrow> anim \<Rightarrow> anim" where
  "updateNodes time st =
     (let (ns, st') = updateNodesFrom time 0 (nodes st) st in st'\<lparr>nodes := ns\<rparr>)"

section \<open>The spatial sampler and the creation of the nodes\<close>

text \<open>
  \<^verbatim>\<open>generatePoissonDiskSampling\<close>. A candidate is three draws. The inner \<^verbatim>\<open>for\<close>
  loop stops at the first candidate that keeps the distance or after \<open>maxAttempts\<close>
  candidates. One round of the \<^verbatim>\<open>while\<close> loop pushes exactly one point: the first
  accepted candidate at the target distance, else the first at the relaxed distance, else
  a random point. When \<open>numPoints\<close> is not positive the distance is not used (the source
  divides by \<open>Math.sqrt(numPoints)\<close> all the same).
\<close>

definition randomPoint :: "real \<Rightarrow> real \<Rightarrow> real \<Rightarrow> rng \<Rightarrow> vec3 \<times> rng" where
  "randomPoint width height depth g =
     (let (r1, g1) = random g; (r2, g2) = random g1; (r3, g3) = random g2 in
      (Vector3 ((r1 - 0.5) * width) ((r2 - 0.5) * height) ((r3 - 0.5) * depth), g3))"

definition validPosition :: "vec3 \<Rightarrow> vec3 list \<Rightarrow> real \<Rightarrow> bool" where
  "validPosition candidate points sep =
     list_all (\<lambda>existingPoint. \<not> distanceTo candidate existingPoint < sep) points"

definition maxAttempts :: nat where
  "maxAttempts = 30"

fun attempts ::
  "nat \<Rightarrow> real \<Rightarrow> real \<Rightarrow> real \<Rightarrow> real \<Rightarrow> vec3 list \<Rightarrow> rng \<Rightarrow> vec3 option \<times> rng" where
  "attempts 0 sep width height depth points g = (None, g)"
| "attempts (Suc k) sep width height depth points g =
     (let (candidate, g1) = randomPoint width height depth g in
      if validPosition candidate points sep then (Some candidate, g1)
      else attempts k sep width height depth points g1)"

definition placeNext ::
  "real \<Rightarrow> real \<Rightarrow> real \<Rightarrow> real \<Rightarrow> vec3 list \<Rightarrow> rng \<Rightarrow> vec3 \<times> rng" where
  "placeNext minDistance width height depth points g =
     (case attempts maxAttempts minDistance width height depth points g of
        (Some candidate, g1) \<Rightarrow> (candidate, g1)
      | (None, g1) \<Rightarrow>
          (let relaxedDistance = minDistance * 0.9 in
           case attempts maxAttempts relaxedDistance width height depth points g1 of
             (Some candidate, g2) \<Rightarrow> (candidate, g2)
           | (None, g2) \<Rightarrow> randomPoint width height depth g2))"

function samplingLoop ::
  "int \<Rightarrow> real \<Rightarrow> real \<Rightarrow> real \<Rightarrow> real \<Rightarrow> vec3 list \<Rightarrow> rng \<Rightarrow> vec3 list \<times> rng" where
  "samplingLoop numPoints minDistance width height depth points g =
     (if int (length points) < numPoints then
        (let (p, g') = placeNext minDistance width height depth points g in
         samplingLoop numPoints minDistance width height depth (points @ [p]) g')
      else (points, g))"
  by pat_completeness auto
termination
  by (relation "measure (\<lambda>(numPoints, minDistance, width, height, depth, points, g).
        nat (numPoints - int (length points)))") auto

declare samplingLoop.simps [simp del]

definition generatePoissonDiskSampling ::
  "int \<Rightarrow> real \<Rightarrow> real \<Rightarrow> real \<Rightarrow> rng \<Rightarrow> vec3 list \<times> rng" where
  "generatePoissonDiskSampling numPoints width height depth g =
     (let minDistance = min width (min height depth) / sqrt (real_of_int numPoints) * 0.8;
          (points, g1) =
            (if numPoints > 0 then (let (p, g') = randomPoint width height depth g in ([p], g'))
             else ([], g))
      in samplingLoop numPoints minDistance width height depth points g1)"

text \<open>
  \<^verbatim>\<open>createNodes\<close>: the fields of a new node in the order of the object literal, which
  is the order of the draws.
\<close>

definition newNode :: "color \<Rightarrow> vec3 \<Rightarrow> rng \<Rightarrow> node \<times> rng" where
  "newNode col pos g =
     (let (v1, g1) = random g; (v2, g2) = random g1; (v3, g3) = random g2;
          (a, g4) = random g3; (m, g5) = random g4; (r, g6) = random g5; (f, g7) = random g6;
          (w1, g8) = random g7; (w2, g9) = random g8; (w3, g10) = random g9
      in (\<lparr>position = pos,
           velocity = Vector3 ((v1 - 0.5) * 0.3) ((v2 - 0.5) * 0.3) ((v3 - 0.5) * 0.2),
           targetPosition = pos, activity = a, baseColor = col,
           mass = 1.0 + m * 0.5, restitution = 0.6 + r * 0.3, friction = 0.9 + f * 0.1,
           angularVelocity = Vector3 ((w1 - 0.5) * 0.02) ((w2 - 0.5) * 0.02) ((w3 - 0.5) * 0.02),
           lastCollisionTime = 0, rotation = Vector3 0 0 0\<rparr>, g10))"

fun createLoop ::
  "nat \<Rightarrow> nat \<Rightarrow> real \<Rightarrow> real \<Rightarrow> real \<Rightarrow> vec3 list \<Rightarrow> anim \<Rightarrow> anim" where
  "createLoop 0 i width height depth positions st = st"
| "createLoop (Suc k) i width height depth positions st =
     (let (pos, g0) =
            (if i < length positions then (positions ! i, rng st)
             else randomPoint width height (depth * 0.8) (rng st));
          (n, g1) = newNode (nodeColor st) pos g0
      in createLoop k (Suc i) width height depth positions
           (st\<lparr>nodes := nodes st @ [n], rng := g1\<rparr>))"

definition createNodes :: "anim \<Rightarrow> anim" where
  "createNodes st =
     (let depth = 20; height = frustumHeight st; width = frustumWidth st;
          (positions, g) =
            generatePoissonDiskSampling (nodeCount st) width height (depth * 0.8) (rng st)
      in createLoop (nat (nodeCount st)) 0 width height depth positions (st\<lparr>rng := g\<rparr>))"

definition recreateNodes :: "anim \<Rightarrow> anim" where
  "recreateNodes st = createNodes (st\<lparr>nodes := []\<rparr>)"

section \<open>Particles and ripples\<close>

definition deltaTime :: real where
  "deltaTime = 1 / 60"

definition createParticle :: "anim \<Rightarrow> nat \<Rightarrow> nat \<Rightarrow> rng \<Rightarrow> particle \<times> rng" where
  "createParticle st startN endN g =
     (let (r, g1) = random g in
      (\<lparr>startNode = startN, endNode = endN, progress = 0,
        speed = particleSpeed st * (0.5 + r * 0.5), lifespan = 3.0, particle_age = 0,
        particle_opacity = 1.0\<rparr>, g1))"

text \<open>
  The first loop of \<^verbatim>\<open>updateParticles\<close> treats every particle on its own: it ages it,
  and removes it or fades it. \<open>None\<close> is the removal.
\<close>

definition ageParticle :: "particle \<Rightarrow> particle option" where
  "ageParticle p =
     (let p1 = p\<lparr>particle_age := particle_age p + deltaTime,
                 progress := progress p + speed p * deltaTime\<rparr> in
      if progress p1 \<ge> 1.0 \<or> particle_age p1 \<ge> lifespan p1 then None
      else (let fadeProgress = particle_age p1 / lifespan p1 in
            Some (p1\<lparr>particle_opacity := 0.8 * (1 - fadeProgress * fadeProgress)\<rparr>)))"

text \<open>
  The spawn loop of \<^verbatim>\<open>updateParticles\<close>. A JavaScript division by zero returns an
  infinity or NaN instead of failing; the model makes a zero divisor a fault, so that
  "the division by zero pairs is never evaluated" is a property of the result.
\<close>

datatype fault = DivisionByZero

definition divide_checked :: "real \<Rightarrow> real \<Rightarrow> fault + real" where
  "divide_checked a b = (if b = 0 then Inl DivisionByZero else Inr (a / b))"

definition pairs :: "nat \<Rightarrow> (nat \<times> nat) list" where
  "pairs n = concat (map (\<lambda>i. map (\<lambda>j. (i, j)) [i + 1..<n]) [0..<n])"

definition spawnPair :: "real \<Rightarrow> nat \<times> nat \<Rightarrow> anim \<Rightarrow> anim" where
  "spawnPair spawnProbability = (\<lambda>(i, j) st.
     let nodeA = nodes st ! i; nodeB = nodes st ! j;
         activityFactor = max 0.3 ((activity nodeA + activity nodeB) * 0.5);
         finalProbability = spawnProbability * activityFactor;
         (r, g1) = random (rng st)
     in if r < finalProbability then
          (let (r2, g2) = random g1;
               startN = (if r2 < 0.5 then i else j);
               endN = (if startN = i then j else i);
               (p, g3) = createParticle st startN endN g2
           in st\<lparr>particles := particles st @ [p], rng := g3\<rparr>)
        else st\<lparr>rng := g1\<rparr>)"

definition spawnParticles :: "anim \<Rightarrow> fault + anim" where
  "spawnParticles st =
     (if showParticles st \<and> length (nodes st) > 1 then
        (let totalConnections = (real (length (nodes st)) * (real (length (nodes st)) - 1)) / 2 in
         case divide_checked (real_of_int (particleCount st) * deltaTime * 2) totalConnections of
           Inl e \<Rightarrow> Inl e
         | Inr spawnProbability \<Rightarrow>
             Inr (fold (spawnPair spawnProbability) (pairs (length (nodes st))) st))
      else Inr st)"

definition updateParticles :: "anim \<Rightarrow> fault + anim" where
  "updateParticles st =
     spawnParticles (st\<lparr>particles := List.map_filter ageParticle (particles st)\<rparr>)"

text \<open>\<^verbatim>\<open>updateRipples\<close>, one ripple at a time; \<open>None\<close> is the removal.\<close>

definition updateRipple :: "ripple \<Rightarrow> ripple option" where
  "updateRipple r =
     (let r1 = r\<lparr>age := age r + deltaTime\<rparr> in
      if age r1 \<ge> maxAge r1 then None
      else (let prog = age r1 / maxAge r1;
                currentScale = maxRadius r1 * prog;
                opacity = 0.6 * (1 - prog * prog * prog)
            in Some (r1\<lparr>ripple_scale := currentScale, ripple_opacity := opacity,
                         ripple_radius := currentScale\<rparr>)))"

definition updateRipples :: "anim \<Rightarrow> anim" where
  "updateRipples st = st\<lparr>ripples := List.map_filter updateRipple (ripples st)\<rparr>"

definition clearAllRipples :: "anim \<Rightarrow> anim" where
  "clearAllRipples st = st\<lparr>ripples := []\<rparr>"

definition clearAllParticles :: "anim \<Rightarrow> anim" where
  "clearAllParticles st = st\<lparr>particles := []\<rparr>"

definition updateParticleVisibility :: "anim \<Rightarrow> anim" where
  "updateParticleVisibility st = (if \<not> showParticles st then clearAllParticles st else st)"

definition updateRippleVisibility :: "anim \<Rightarrow> anim" where
  "updateRippleVisibility st = (if \<not> showRipples st then clearAllRipples st else st)"

definition updateNodeColors :: "anim \<Rightarrow> anim" where
  "updateNodeColors st = st\<lparr>nodes := map (\<lambda>n. n\<lparr>baseColor := nodeColor st\<rparr>) (nodes st)\<rparr>"

section \<open>The transition between presets\<close>

text \<open>
  \<^verbatim>\<open>startTransition\<close> and \<^verbatim>\<open>updateTransition\<close>; \<open>now\<close> is
  \<^verbatim>\<open>performance.now()\<close> in milliseconds. The scalar blend \<^verbatim>\<open>this.lerp\<close> is a
  parameter of the update, so that the same update can be read with exact arithmetic
  (\<open>lerp\<close>) and with double rounding. The duration slider ranges from 0.5 to 10, so the
  division by the duration is a division by a positive number.
\<close>

definition startTransition :: "real \<Rightarrow> preset \<Rightarrow> anim \<Rightarrow> anim" where
  "startTransition now toP st =
     (if isTransitioning st then st
      else st\<lparr>fromPreset := Some (getCurrentPreset st), toPreset := Some toP,
              isTransitioning := True, transitionStartTime := now\<rparr>)"

definition interpolate ::
  "(real \<Rightarrow> real \<Rightarrow> real \<Rightarrow> real) \<Rightarrow> preset \<Rightarrow> preset \<Rightarrow> real \<Rightarrow> anim \<Rightarrow> anim" where
  "interpolate blend fromP toP t st =
     st\<lparr>nodeCount := Math_round (blend (real_of_int (nodeCount fromP)) (real_of_int (nodeCount toP)) t),
        nodeSpeed := blend (nodeSpeed fromP) (nodeSpeed toP) t,
        activitySpeed := blend (activitySpeed fromP) (activitySpeed toP) t,
        connectionOpacity := blend (connectionOpacity fromP) (connectionOpacity toP) t,
        spaceSize := blend (spaceSize fromP) (spaceSize toP) t,
        mouseInfluenceRadius := blend (mouseInfluenceRadius fromP) (mouseInfluenceRadius toP) t,
        particleCount :=
          Math_round (blend (real_of_int (particleCount fromP)) (real_of_int (particleCount toP)) t),
        particleSpeed := blend (particleSpeed fromP) (particleSpeed toP) t,
        particleSize := blend (particleSize fromP) (particleSize toP) t,
        rippleIntensity := blend (rippleIntensity fromP) (rippleIntensity toP) t,
        rippleDuration := blend (rippleDuration fromP) (rippleDuration toP) t,
        rippleSize := blend (rippleSize fromP) (rippleSize toP) t,
        wallRestitution := blend (wallRestitution fromP) (wallRestitution toP) t,
        wallFriction := blend (wallFriction fromP) (wallFriction toP) t,
        backgroundColor := lerpColor (backgroundColor fromP) (backgroundColor toP) t,
        nodeColor := lerpColor (nodeColor fromP) (nodeColor toP) t,
        connectionColor := lerpColor (connectionColor fromP) (connectionColor toP) t,
        particleColor := lerpColor (particleColor fromP) (particleColor toP) t,
        rippleColor := lerpColor (rippleColor fromP) (rippleColor toP) t,
        showAllConnections :=
          (if t \<ge> 0.5 then showAllConnections toP else showAllConnections fromP),
        showParticles := (if t \<ge> 0.5 then showParticles toP else showParticles fromP),
        showRipples := (if t \<ge> 0.5 then showRipples toP else showRipples fromP)\<rparr>"

definition rawProgress :: "real \<Rightarrow> anim \<Rightarrow> real" where
  "rawProgress now st =
     (let elapsed = (now - transitionStartTime st) / 1000 in
      min (elapsed / transitionDuration st) 1)"

definition updateTransition_by ::
  "(real \<Rightarrow> real \<Rightarrow> real \<Rightarrow> real) \<Rightarrow> real \<Rightarrow> anim \<Rightarrow> anim" where
  "updateTransition_by blend now st =
     (if \<not> isTransitioning st then st
      else case fromPreset st of
        None \<Rightarrow> st
      | Some fromP \<Rightarrow>
          (case toPreset st of
             None \<Rightarrow> st
           | Some toP \<Rightarrow>
               (let prog = rawProgress now st;
                    easingFunc = getEasingFunction (transitionEasing st);
                    t = easingFunc prog;
                    st1 = interpolate blend fromP toP t st;
                    st2 = updateRippleVisibility (updateParticleVisibility (updateNodeColors st1));
                    st3 = (if \<bar>nodeCount st2 - int (length (nodes st2))\<bar> > 0
                           then recreateNodes st2 else st2)
                in if prog \<ge> 1
                   then st3\<lparr>isTransitioning := False, name := name toP,
                            fromPreset := None, toPreset := None\<rparr>
                   else st3)))"

definition updateTransition :: "real \<Rightarrow> anim \<Rightarrow> anim" where
  "updateTransition = updateTransition_by lerp"

text \<open>One frame: \<^verbatim>\<open>animate\<close> without the rendering.\<close>

definition animate :: "real \<Rightarrow> real \<Rightarrow> anim \<Rightarrow> fault + anim" where
  "animate now time st =
     (case updateParticles (updateNodes time (updateTransition now st)) of
        Inl e \<Rightarrow> Inl e
      | Inr st' \<Rightarrow> Inr (updateRipples st'))"

section \<open>Double arithmetic\<close>

text \<open>
  A JavaScript number is an IEEE-754 double and every arithmetic operation rounds its exact
  result to the nearest double, ties to even. A finite double is \<open>m * 2 ^ e\<close> with
  \<open>\<bar>m\<bar> < 2 ^ 53\<close> and \<open>e \<ge> - 1074\<close>; \<open>toDouble\<close> rounds a real number to the
  nearest of them (overflow to infinity is not modelled; no value here comes near it).
  \<open>lerp_double\<close> is \<^verbatim>\<open>start + (end - start) * t\<close> with the three operations
  rounded.
\<close>

definition roundHalfEven :: "real \<Rightarrow> int" where
  "roundHalfEven v =
     (let f = \<lfloor>v\<rfloor>; d = v - of_int f in
      if d < 1 / 2 then f else if d > 1 / 2 then f + 1 else if even f then f else f + 1)"

definition pow2 :: "int \<Rightarrow> real" where
  "pow2 e = (if 0 \<le> e then 2 ^ nat e else 1 / 2 ^ nat (- e))"

definition doubleExponent :: "real \<Rightarrow> int" where
  "doubleExponent v = max (bitlen \<lfloor>\<bar>v\<bar> * 2 ^ 1074\<rfloor> - 53) 0 - 1074"

definition toDouble :: "real \<Rightarrow> real" where
  "toDouble v = (let e = doubleExponent v in of_int (roundHalfEven (v / pow2 e)) * pow2 e)"

definition lerp_double :: "real \<Rightarrow> real \<Rightarrow> real \<Rightarrow> real" where
  "lerp_double start end t = toDouble (start + toDouble (toDouble (end - start) * t))"

text \<open>
  The bounce curve in double arithmetic: its constants are doubles, and the quotients, the
  shifted \<open>t\<close>, the two products and the sum are rounded. It is the one curve whose value
  at 1 passes through rounded operations.
\<close>

definition bounce_double :: "real \<Rightarrow> real" where
  "bounce_double t =
     (if t < toDouble (1 / 2.75) then toDouble (toDouble (7.5625 * t) * t)
      else if t < toDouble (2 / 2.75) then
        toDouble (toDouble (toDouble (7.5625 * toDouble (t - toDouble (1.5 / 2.75)))
                     * toDouble (t - toDouble (1.5 / 2.75))) + 0.75)
      else if t < toDouble (2.5 / 2.75) then
        toDouble (toDouble (toDouble (7.5625 * toDouble (t - toDouble (2.25 / 2.75)))
                     * toDouble (t - toDouble (2.25 / 2.75))) + 0.9375)
      else
        toDouble (toDouble (toDouble (7.5625 * toDouble (t - toDouble (2.625 / 2.75)))
                     * toDouble (t - toDouble (2.625 / 2.75))) + 0.984375))"

section \<open>Vocabulary of the statements and sample data\<close>

text \<open>
  A perspective camera has a field of view strictly between 0 and 180 degrees and a
  non-negative aspect ratio (the program creates it with 75 degrees and the aspect ratio
  of the window). \<open>constructed\<close> is the state the field initialisers of the constructor
  and \<^verbatim>\<open>init\<close> leave, for a given aspect ratio and random sequence.
\<close>

definition validCamera :: "anim \<Rightarrow> bool" where
  "validCamera st = (0 < camera_fov st \<and> camera_fov st < 180 \<and> 0 \<le> camera_aspect st)"

definition inside :: "real \<Rightarrow> real \<Rightarrow> bool" where
  "inside b p = (- b \<le> p \<and> p \<le> b)"

definition inBox :: "anim \<Rightarrow> node \<Rightarrow> bool" where
  "inBox st n =
     (\<bar>vec_x (position n)\<bar> \<le> boundaryX st \<and> \<bar>vec_y (position n)\<bar> \<le> boundaryY st \<and>
      \<bar>vec_z (position n)\<bar> \<le> boundaryZ)"

definition crossesOutward :: "real \<Rightarrow> real \<Rightarrow> real \<Rightarrow> bool" where
  "crossesOutward b p v = (p > b \<and> v > 0 \<or> p < - b \<and> v < 0)"

definition debounced :: "real \<Rightarrow> node \<Rightarrow> bool" where
  "debounced time n = (time - lastCollisionTime n > minTimeBetweenCollisions)"

datatype axis = AxisX | AxisY | AxisZ

fun coord :: "axis \<Rightarrow> vec3 \<Rightarrow> real" where
  "coord AxisX v = vec_x v"
| "coord AxisY v = vec_y v"
| "coord AxisZ v = vec_z v"

fun boundary :: "anim \<Rightarrow> axis \<Rightarrow> real" where
  "boundary st AxisX = boundaryX st"
| "boundary st AxisY = boundaryY st"
| "boundary st AxisZ = boundaryZ"

fun axisOrder :: "axis \<Rightarrow> nat" where
  "axisOrder AxisX = 0"
| "axisOrder AxisY = 1"
| "axisOrder AxisZ = 2"

definition crosses :: "anim \<Rightarrow> node \<Rightarrow> axis \<Rightarrow> bool" where
  "crosses st n a = crossesOutward (boundary st a) (coord a (moved st n)) (coord a (velocity n))"

definition rippleWall :: "anim \<Rightarrow> node \<Rightarrow> axis \<Rightarrow> bool" where
  "rippleWall st n a = (showRipples st \<and> \<not> (a = AxisZ \<and> vec_z (moved st n) > boundaryZ))"

definition constructed :: "real \<Rightarrow> rng \<Rightarrow> anim" where
  "constructed aspect g =
     \<lparr>name = ''Default'', nodeCount = 12, nodeSpeed = 0.5, activitySpeed = 2.0,
      connectionOpacity = 0.3, spaceSize = 15, mouseInfluenceRadius = 5.0,
      backgroundColor = \<lparr>red = 10, green = 10, blue = 26\<rparr>,
      nodeColor = \<lparr>red = 255, green = 107, blue = 107\<rparr>,
      connectionColor = \<lparr>red = 79, green = 195, blue = 247\<rparr>,
      showAllConnections = True, particleCount = 8, particleSpeed = 1.0, particleSize = 0.2,
      particleColor = \<lparr>red = 255, green = 255, blue = 0\<rparr>, showParticles = True,
      rippleIntensity = 0.8, rippleDuration = 2.0, rippleSize = 1.0,
      rippleColor = \<lparr>red = 255, green = 255, blue = 255\<rparr>, showRipples = True,
      wallRestitution = 0.7, wallFriction = 0.95,
      nodes = [], particles = [], ripples = [],
      isTransitioning = False, transitionStartTime = 0, transitionDuration = 2.0,
      transitionEasing = ''ease-in-out'', fromPreset = None, toPreset = None,
      camera_fov = 75, camera_aspect = aspect, rng = g\<rparr>"

definition sampleRng :: rng where
  "sampleRng = \<lparr>rand = (\<lambda>i. 1 / 2), randPos = 0\<rparr>"

definition sampleState :: anim where
  "sampleState = constructed 2 sampleRng"

definition nodeAt :: "vec3 \<Rightarrow> vec3 \<Rightarrow> node" where
  "nodeAt p v =
     \<lparr>position = p, velocity = v, targetPosition = p, activity = 0,
      baseColor = nodeColor sampleState, mass = 1, restitution = 0.8, friction = 0.95,
      angularVelocity = Vector3 0 0 0, lastCollisionTime = 0, rotation = Vector3 0 0 0\<rparr>"

definition cornerNode :: node where
  "cornerNode =
     nodeAt (Vector3 (boundaryX sampleState - 0.01) (boundaryY sampleState - 0.01) 0)
       (Vector3 0.1 0.1 0)"

definition wallNode :: node where
  "wallNode = nodeAt (Vector3 (boundaryX sampleState - 0.01) (- 0.005) 0) (Vector3 0.1 0.01 0)"

text \<open>
  A second preset and the state in which a transition to it has just started; the life of
  a ripple as a number of updates; a ripple created while the ripple duration is 0.51
  seconds (a value the blend of two presets can take).
\<close>

definition targetPreset :: preset where
  "targetPreset =
     \<lparr>name = ''Target'', nodeCount = 20, nodeSpeed = 1.25, activitySpeed = 1.0,
      connectionOpacity = 0.5, spaceSize = 20, mouseInfluenceRadius = 8.0,
      backgroundColor = \<lparr>red = 0, green = 16, blue = 32\<rparr>,
      nodeColor = \<lparr>red = 64, green = 160, blue = 255\<rparr>,
      connectionColor = \<lparr>red = 32, green = 96, blue = 192\<rparr>,
      showAllConnections = True, particleCount = 4, particleSpeed = 0.5, particleSize = 0.125,
      particleColor = \<lparr>red = 128, green = 224, blue = 255\<rparr>, showParticles = True,
      rippleIntensity = 1.0, rippleDuration = 3.0, rippleSize = 1.5,
      rippleColor = \<lparr>red = 160, green = 208, blue = 255\<rparr>, showRipples = False,
      wallRestitution = 0.5, wallFriction = 0.875\<rparr>"

definition inFlight :: anim where
  "inFlight = startTransition 0 targetPreset sampleState"

primrec rippleAfter :: "nat \<Rightarrow> ripple \<Rightarrow> ripple option" where
  "rippleAfter 0 r = Some r"
| "rippleAfter (Suc k) r = (case rippleAfter k r of None \<Rightarrow> None | Some r' \<Rightarrow> updateRipple r')"

definition shortRipple :: ripple where
  "shortRipple =
     createRipple (sampleState\<lparr>rippleDuration := 0.51\<rparr>) (Vector3 0 (- boundaryY sampleState) 0)
       (Vector3 0 1 0) ''floor''"

text \<open>
  \<^verbatim>\<open>Math.random()\<close> returns numbers from 0 (included) to 1 (excluded). A position is
  within the full extents when every coordinate is within half the extent.
\<close>

definition validRng :: "rng \<Rightarrow> bool" where
  "validRng g = (\<forall>i. 0 \<le> rand g i \<and> rand g i < 1)"

definition inExtents :: "real \<Rightarrow> real \<Rightarrow> real \<Rightarrow> vec3 \<Rightarrow> bool" where
  "inExtents width height depth p =
     (\<bar>vec_x p\<bar> \<le> width / 2 \<and> \<bar>vec_y p\<bar> \<le> height / 2 \<and> \<bar>vec_z p\<bar> \<le> depth / 2)"

text \<open>
  Two states with the same parameters, transition fields and camera; a preset whose node
  speed is the double nearest to 0.1; the state in which an elastic transition has started.
\<close>

definition sameSettings :: "anim \<Rightarrow> anim \<Rightarrow> bool" where
  "sameSettings a b =
     (getCurrentPreset a = getCurrentPreset b \<and> isTransitioning a = isTransitioning b \<and>
      fromPreset a = fromPreset b \<and> toPreset a = toPreset b \<and>
      transitionStartTime a = transitionStartTime b \<and>
      transitionDuration a = transitionDuration b \<and>
      transitionEasing a = transitionEasing b \<and>
      camera_fov a = camera_fov b \<and> camera_aspect a = camera_aspect b)"

definition slowPreset :: preset where
  "slowPreset = targetPreset\<lparr>nodeSpeed := toDouble (1 / 10)\<rparr>"

definition elasticFlight :: anim where
  "elasticFlight = startTransition 0 targetPreset (sampleState\<lparr>transitionEasing := ''elastic''\<rparr>)"

section \<open>Rounding to double: evaluation\<close>

lemma floor_in_binade:
  fixes y :: real
  assumes "2 ^ m \<le> y" and "y < 2 ^ Suc m"
  shows "bitlen \<lfloor>y\<rfloor> = int m + 1"
proof -
  have l: "(2::int) ^ m \<le> \<lfloor>y\<rfloor>" using assms(1) by (simp add: le_floor_iff)
  have u: "\<lfloor>y\<rfloor> < (2::int) ^ Suc m" using assms(2) by (simp add: floor_less_iff)
  have "bitlen \<lfloor>y\<rfloor> \<le> int m + 1"
    using u by (simp add: bitlen_le_iff_power nat_add_distrib)
  moreover have "int m + 1 \<le> bitlen \<lfloor>y\<rfloor>"
    using l by (simp add: bitlen_ge_iff_power nat_add_distrib)
  ultimately show ?thesis by simp
qed

lemma toDouble_normal:
  assumes "2 ^ 52 \<le> \<bar>v\<bar> * 2 ^ k" and "\<bar>v\<bar> * 2 ^ k < 2 ^ 53" and "k \<le> 1074"
  shows "toDouble v = of_int (roundHalfEven (v * 2 ^ k)) / 2 ^ k"
proof -
  have s: "\<bar>v\<bar> * 2 ^ 1074 = (\<bar>v\<bar> * 2 ^ k) * 2 ^ (1074 - k)"
    using assms(3) by (simp add: power_add[symmetric])
  have "2 ^ 52 * 2 ^ (1074 - k) \<le> (\<bar>v\<bar> * 2 ^ k) * (2::real) ^ (1074 - k)"
    by (rule mult_right_mono[OF assms(1)]) simp
  then have l: "2 ^ (52 + (1074 - k)) \<le> \<bar>v\<bar> * 2 ^ 1074"
    unfolding s by (simp only: power_add)
  have "(\<bar>v\<bar> * 2 ^ k) * (2::real) ^ (1074 - k) < 2 ^ 53 * 2 ^ (1074 - k)"
    by (rule mult_strict_right_mono[OF assms(2)]) simp
  then have u: "\<bar>v\<bar> * 2 ^ 1074 < 2 ^ Suc (52 + (1074 - k))"
    unfolding s by (simp add: power_add)
  have "bitlen \<lfloor>\<bar>v\<bar> * 2 ^ 1074\<rfloor> = int (52 + (1074 - k)) + 1"
    by (rule floor_in_binade[OF l u])
  then have e: "doubleExponent v = - int k"
    using assms(3) unfolding doubleExponent_def by simp
  have p: "pow2 (- int k) = 1 / 2 ^ k" by (simp add: pow2_def)
  show ?thesis by (simp add: toDouble_def Let_def e p)
qed

lemma toDouble_0: "toDouble 0 = 0"
  by (simp add: toDouble_def Let_def roundHalfEven_def)

section \<open>Properties of the easing curves\<close>

lemma bounce_0: "bounce 0 = 0"
  by (simp add: bounce_def)

lemma bounce_1: "bounce 1 = 1"
  by (simp add: bounce_def)

lemma elastic_0: "elastic 0 = 0"
  by (simp add: elastic_def)

lemma elastic_1: "elastic 1 = 1"
  by (simp add: elastic_def)

lemma easing_at_1: "getEasingFunction type 1 = 1"
  by (simp add: getEasingFunction_def bounce_1 elastic_1)

lemma lerp_at_1: "lerp a b 1 = b"
  by (simp add: lerp_def)

lemma threshold_1: "toDouble (1 / 2.75) = 6550690367084358 / 2 ^ 54"
  by (subst toDouble_normal[where k = 54]) (simp_all add: roundHalfEven_def Let_def)

lemma threshold_2: "toDouble (2 / 2.75) = 6550690367084358 / 2 ^ 53"
  by (subst toDouble_normal[where k = 53]) (simp_all add: roundHalfEven_def Let_def)

lemma threshold_3: "toDouble (2.5 / 2.75) = 8188362958855447 / 2 ^ 53"
  by (subst toDouble_normal[where k = 53]) (simp_all add: roundHalfEven_def Let_def)

lemma bounce_shift: "toDouble (2.625 / 2.75) = 8597781106798220 / 2 ^ 53"
  by (subst toDouble_normal[where k = 53]) (simp_all add: roundHalfEven_def Let_def)

lemma bounce_shifted: "toDouble (1 - 8597781106798220 / 2 ^ 53) = 6550690367084352 / 2 ^ 57"
  by (subst toDouble_normal[where k = 57]) (simp_all add: roundHalfEven_def Let_def)

lemma bounce_product_1: "toDouble (7.5625 * (6550690367084352 / 2 ^ 57)) = 6192449487634426 / 2 ^ 54"
  by (subst toDouble_normal[where k = 54]) (simp_all add: roundHalfEven_def Let_def)

lemma bounce_product_2:
  "toDouble (6192449487634426 / 2 ^ 54 * (6550690367084352 / 2 ^ 57)) = 9007199254740975 / 2 ^ 59"
  by (subst toDouble_normal[where k = 59]) (simp_all add: roundHalfEven_def Let_def)

lemma bounce_sum: "toDouble (9007199254740975 / 2 ^ 59 + 0.984375) = 1"
  by (subst toDouble_normal[where k = 53]) (simp_all add: roundHalfEven_def Let_def)

lemma bounce_double_0: "bounce_double 0 = 0"
proof -
  have "(0::real) < toDouble (1 / 2.75)" unfolding threshold_1 by simp
  then have "bounce_double 0 = toDouble (toDouble (7.5625 * 0) * 0)"
    unfolding bounce_double_def by (simp only: if_True)
  then show ?thesis by (simp add: toDouble_0)
qed

lemma bounce_double_1: "bounce_double 1 = 1"
proof -
  have a: "\<not> (1::real) < toDouble (1 / 2.75)" unfolding threshold_1 by simp
  have b: "\<not> (1::real) < toDouble (2 / 2.75)" unfolding threshold_2 by simp
  have c: "\<not> (1::real) < toDouble (2.5 / 2.75)" unfolding threshold_3 by simp
  have "bounce_double 1 =
        toDouble (toDouble (toDouble (7.5625 * toDouble (1 - toDouble (2.625 / 2.75)))
                     * toDouble (1 - toDouble (2.625 / 2.75))) + 0.984375)"
    unfolding bounce_double_def using a b c by (simp only: if_False)
  also have "\<dots> = 1"
    unfolding bounce_shift bounce_shifted bounce_product_1 bounce_product_2 bounce_sum
    by (rule refl)
  finally show ?thesis .
qed

text \<open>
  C6. Each of the six supported easing curves (linear, ease-in, ease-out, ease-in-out,
  bounce, elastic) maps 0 to 0 and 1 to 1. The bounce curve does so in double arithmetic
  too: the rounded sum of its last segment at 1 is the double 1.
\<close>

theorem easing_endpoints:
  "getEasingFunction ''linear'' 0 = 0 \<and> getEasingFunction ''linear'' 1 = 1 \<and>
   getEasingFunction ''ease-in'' 0 = 0 \<and> getEasingFunction ''ease-in'' 1 = 1 \<and>
   getEasingFunction ''ease-out'' 0 = 0 \<and> getEasingFunction ''ease-out'' 1 = 1 \<and>
   getEasingFunction ''ease-in-out'' 0 = 0 \<and> getEasingFunction ''ease-in-out'' 1 = 1 \<and>
   getEasingFunction ''bounce'' 0 = 0 \<and> getEasingFunction ''bounce'' 1 = 1 \<and>
   getEasingFunction ''elastic'' 0 = 0 \<and> getEasingFunction ''elastic'' 1 = 1 \<and>
   bounce_double 0 = 0 \<and> bounce_double 1 = 1"
  by (simp add: getEasingFunction_def bounce_0 bounce_1 elastic_0 elastic_1
        bounce_double_0 bounce_double_1)

section \<open>Motion and wall collisions\<close>

lemma impact_fields:
  "impact time s v n st = (n', st') \<Longrightarrow>
     position n' = position n \<and> velocity n' = v \<and> lastCollisionTime n' = time \<and>
     restitution n' = restitution n \<and>
     camera_fov st' = camera_fov st \<and> camera_aspect st' = camera_aspect st \<and>
     ripples st' = ripples st \<and> showRipples st' = showRipples st \<and>
     wallRestitution st' = wallRestitution st \<and> wallFriction st' = wallFriction st \<and>
     nodeSpeed st' = nodeSpeed st"
  by (auto simp: impact_def Let_def split: prod.splits)

lemma emitRipple_fields:
  "camera_fov (emitRipple p q w st) = camera_fov st \<and>
   camera_aspect (emitRipple p q w st) = camera_aspect st \<and>
   showRipples (emitRipple p q w st) = showRipples st \<and>
   wallRestitution (emitRipple p q w st) = wallRestitution st \<and>
   wallFriction (emitRipple p q w st) = wallFriction st \<and>
   nodeSpeed (emitRipple p q w st) = nodeSpeed st"
  by (simp add: emitRipple_def)

lemma boundary_cong:
  "camera_fov a = camera_fov b \<Longrightarrow> camera_aspect a = camera_aspect b \<Longrightarrow>
   boundaryX a = boundaryX b \<and> boundaryY a = boundaryY b"
  by (simp add: boundaryX_def boundaryY_def frustumWidth_def frustumHeight_def)

lemma validCamera_boundaries:
  assumes "validCamera st"
  shows "0 \<le> boundaryX st \<and> 0 < boundaryY st \<and> 0 < boundaryZ"
proof -
  have f: "0 < camera_fov st" "camera_fov st < 180" "0 \<le> camera_aspect st"
    using assms by (simp_all add: validCamera_def)
  have "0 < camera_fov st * pi / 180 / 2" using f by simp
  moreover have "camera_fov st * pi / 180 / 2 < pi / 2" using f by simp
  ultimately have t: "0 < tan (camera_fov st * pi / 180 / 2)" by (rule tan_gt_zero)
  then have h: "0 < frustumHeight st" by (simp add: frustumHeight_def)
  then have "0 \<le> frustumWidth st" using f by (simp add: frustumWidth_def)
  with h show ?thesis by (simp add: boundaryX_def boundaryY_def boundaryZ_def)
qed

lemma collideX_position:
  assumes "collideX time (n, st, c) = (n', st', c')" and "0 \<le> boundaryX st"
  shows "\<bar>vec_x (position n')\<bar> \<le> boundaryX st \<and> vec_y (position n') = vec_y (position n) \<and>
         vec_z (position n') = vec_z (position n) \<and>
         camera_fov st' = camera_fov st \<and> camera_aspect st' = camera_aspect st"
  using assms
  by (auto simp: collideX_def Let_def emitRipple_fields split: prod.splits if_splits dest!: impact_fields)

lemma collideY_position:
  assumes "collideY time (n, st, c) = (n', st', c')" and "0 \<le> boundaryY st"
  shows "\<bar>vec_y (position n')\<bar> \<le> boundaryY st \<and> vec_x (position n') = vec_x (position n) \<and>
         vec_z (position n') = vec_z (position n) \<and>
         camera_fov st' = camera_fov st \<and> camera_aspect st' = camera_aspect st"
  using assms
  by (auto simp: collideY_def Let_def emitRipple_fields split: prod.splits if_splits dest!: impact_fields)

lemma collideZ_position:
  assumes "collideZ time (n, st, c) = (n', st', c')"
  shows "\<bar>vec_z (position n')\<bar> \<le> boundaryZ \<and> vec_x (position n') = vec_x (position n) \<and>
         vec_y (position n') = vec_y (position n) \<and>
         camera_fov st' = camera_fov st \<and> camera_aspect st' = camera_aspect st"
  using assms
  by (auto simp: collideZ_def Let_def emitRipple_fields boundaryZ_def split: prod.splits if_splits dest!: impact_fields)

lemma stepNode_inBox:
  assumes "stepNode time index n st = (n', st')" and "validCamera st"
  shows "inBox st n' \<and> camera_fov st' = camera_fov st \<and> camera_aspect st' = camera_aspect st"
proof -
  let ?n1 = "integrate time index st n"
  obtain a sa ca where X: "collideX time (?n1, st, False) = (a, sa, ca)" by (cases "collideX time (?n1, st, False)")
  obtain b sb cb where Y: "collideY time (a, sa, ca) = (b, sb, cb)" by (cases "collideY time (a, sa, ca)")
  obtain d sd cd where Z: "collideZ time (b, sb, cb) = (d, sd, cd)" by (cases "collideZ time (b, sb, cb)")
  have bd: "0 \<le> boundaryX st" "0 < boundaryY st" using validCamera_boundaries[OF assms(2)] by simp_all
  have px: "\<bar>vec_x (position a)\<bar> \<le> boundaryX st" "camera_fov sa = camera_fov st" "camera_aspect sa = camera_aspect st"
    using collideX_position[OF X bd(1)] by simp_all
  have bY: "boundaryY sa = boundaryY st" using boundary_cong[OF px(2) px(3)] by simp
  have py: "\<bar>vec_y (position b)\<bar> \<le> boundaryY st" "vec_x (position b) = vec_x (position a)"
       "camera_fov sb = camera_fov st" "camera_aspect sb = camera_aspect st"
    using collideY_position[OF Y] bd(2) bY px by simp_all
  have pz: "\<bar>vec_z (position d)\<bar> \<le> boundaryZ" "vec_x (position d) = vec_x (position b)"
       "vec_y (position d) = vec_y (position b)" "camera_fov sd = camera_fov st" "camera_aspect sd = camera_aspect st"
    using collideZ_position[OF Z] py by simp_all
  have res: "n' = spin sd cd (d\<lparr>angularVelocity := multiplyScalar (angularVelocity d) 0.98\<rparr>)" "st' = sd"
    using assms(1) by (auto simp: stepNode_def Let_def X Y Z)
  have "position n' = position d" using res by (simp add: spin_def Let_def)
  then show ?thesis using px py pz res by (simp add: inBox_def)
qed

lemma updateNodesFrom_inBox:
  "updateNodesFrom time index ns st = (ns', st') \<Longrightarrow> validCamera st \<Longrightarrow>
     (\<forall>n \<in> set ns'. inBox st n) \<and> length ns' = length ns \<and>
     camera_fov st' = camera_fov st \<and> camera_aspect st' = camera_aspect st"
proof (induction ns arbitrary: index st ns' st')
  case Nil
  then show ?case by simp
next
  case (Cons n ns)
  obtain a sa where S: "stepNode time index n st = (a, sa)" by (cases "stepNode time index n st")
  obtain r sr where R: "updateNodesFrom time (Suc index) ns sa = (r, sr)"
    by (cases "updateNodesFrom time (Suc index) ns sa")
  have s: "inBox st a" "camera_fov sa = camera_fov st" "camera_aspect sa = camera_aspect st"
    using stepNode_inBox[OF S Cons.prems(2)] by simp_all
  have v: "validCamera sa" using Cons.prems(2) s by (simp add: validCamera_def)
  have ih: "(\<forall>n \<in> set r. inBox sa n)" "length r = length ns" "camera_fov sr = camera_fov sa" "camera_aspect sr = camera_aspect sa"
    using Cons.IH[OF R v] by simp_all
  have eq: "inBox sa = inBox st" using boundary_cong[OF s(2) s(3)] by (auto simp: inBox_def fun_eq_iff)
  have "ns' = a # r" "st' = sr" using Cons.prems(1) by (simp_all add: S R)
  then show ?case using s ih eq by simp
qed

lemma integrate_fields:
  "position (integrate time index st n) = moved st n \<and>
   velocity (integrate time index st n) = velocity n \<and>
   lastCollisionTime (integrate time index st n) = lastCollisionTime n \<and>
   restitution (integrate time index st n) = restitution n"
  by (simp add: integrate_def Let_def moved_def)

lemma collideX_fires:
  assumes "collideX time (n, st, c) = (n', st', c')" and "0 \<le> boundaryX st"
    and "crossesOutward (boundaryX st) (vec_x (position n)) (vec_x (velocity n))"
    and "debounced time n"
  shows "velocity n' = reflectX n st \<and> lastCollisionTime n' = time \<and> c' \<and>
         restitution n' = restitution n \<and>
         length (ripples st') = length (ripples st) + (if showRipples st then 1 else 0) \<and>
         wallRestitution st' = wallRestitution st \<and> wallFriction st' = wallFriction st \<and>
         showRipples st' = showRipples st"
  using assms
  by (auto simp: collideX_def Let_def emitRipple_def crossesOutward_def debounced_def reflectX_def
           split: prod.splits if_splits dest!: impact_fields)

lemma collideY_fires:
  assumes "collideY time (n, st, c) = (n', st', c')" and "0 \<le> boundaryY st"
    and "crossesOutward (boundaryY st) (vec_y (position n)) (vec_y (velocity n))"
    and "debounced time n"
  shows "velocity n' = reflectY n st \<and> lastCollisionTime n' = time \<and> c' \<and>
         restitution n' = restitution n \<and>
         length (ripples st') = length (ripples st) + (if showRipples st then 1 else 0) \<and>
         wallRestitution st' = wallRestitution st \<and> wallFriction st' = wallFriction st \<and>
         showRipples st' = showRipples st"
  using assms
  by (auto simp: collideY_def Let_def emitRipple_def crossesOutward_def debounced_def reflectY_def
           split: prod.splits if_splits dest!: impact_fields)

lemma collideZ_fires:
  assumes "collideZ time (n, st, c) = (n', st', c')"
    and "crossesOutward boundaryZ (vec_z (position n)) (vec_z (velocity n))"
    and "debounced time n"
  shows "velocity n' = reflectZ n st \<and> lastCollisionTime n' = time \<and> c' \<and>
         restitution n' = restitution n \<and>
         wallRestitution st' = wallRestitution st \<and> wallFriction st' = wallFriction st \<and>
         showRipples st' = showRipples st"
  using assms
  by (auto simp: collideZ_def Let_def emitRipple_def crossesOutward_def debounced_def reflectZ_def boundaryZ_def
           split: prod.splits if_splits dest!: impact_fields)

lemma collideX_quiet:
  assumes "collideX time (n, st, c) = (n', st', c')"
    and "\<not> (crossesOutward (boundaryX st) (vec_x (position n)) (vec_x (velocity n)) \<and> debounced time n)"
  shows "velocity n' = velocity n \<and> lastCollisionTime n' = lastCollisionTime n \<and> c' = c \<and>
         restitution n' = restitution n \<and> st' = st"
  using assms
  by (auto simp: collideX_def Let_def crossesOutward_def debounced_def split: prod.splits if_splits)

lemma collideY_quiet:
  assumes "collideY time (n, st, c) = (n', st', c')"
    and "\<not> (crossesOutward (boundaryY st) (vec_y (position n)) (vec_y (velocity n)) \<and> debounced time n)"
  shows "velocity n' = velocity n \<and> lastCollisionTime n' = lastCollisionTime n \<and> c' = c \<and>
         restitution n' = restitution n \<and> st' = st"
  using assms
  by (auto simp: collideY_def Let_def crossesOutward_def debounced_def split: prod.splits if_splits)

lemma collideZ_quiet:
  assumes "collideZ time (n, st, c) = (n', st', c')"
    and "\<not> (crossesOutward boundaryZ (vec_z (position n)) (vec_z (velocity n)) \<and> debounced time n)"
  shows "velocity n' = velocity n \<and> lastCollisionTime n' = lastCollisionTime n \<and> c' = c \<and>
         restitution n' = restitution n \<and> st' = st"
  using assms
  by (auto simp: collideZ_def Let_def crossesOutward_def debounced_def split: prod.splits if_splits)

lemma stamped_not_debounced: "lastCollisionTime n = time \<Longrightarrow> \<not> debounced time n"
  by (simp add: debounced_def minTimeBetweenCollisions_def)

lemma stepNode_split:
  obtains a sa ca b sb cb d sd cd where
    "collideX time (integrate time index st n, st, False) = (a, sa, ca)"
    "collideY time (a, sa, ca) = (b, sb, cb)"
    "collideZ time (b, sb, cb) = (d, sd, cd)"
    "stepNode time index n st =
       (spin sd cd (d\<lparr>angularVelocity := multiplyScalar (angularVelocity d) 0.98\<rparr>), sd)"
proof -
  obtain a sa ca where X: "collideX time (integrate time index st n, st, False) = (a, sa, ca)"
    by (cases "collideX time (integrate time index st n, st, False)")
  obtain b sb cb where Y: "collideY time (a, sa, ca) = (b, sb, cb)"
    by (cases "collideY time (a, sa, ca)")
  obtain d sd cd where Z: "collideZ time (b, sb, cb) = (d, sd, cd)"
    by (cases "collideZ time (b, sb, cb)")
  have "stepNode time index n st =
       (spin sd cd (d\<lparr>angularVelocity := multiplyScalar (angularVelocity d) 0.98\<rparr>), sd)"
    by (simp add: stepNode_def Let_def X Y Z)
  with X Y Z show ?thesis by (rule that)
qed

lemma spin_fields:
  "velocity (spin st c n) = velocity n \<and> position (spin st c n) = position n \<and>
   lastCollisionTime (spin st c n) = lastCollisionTime n"
  by (simp add: spin_def Let_def)

lemma stepNode_firstX:
  assumes V: "validCamera st" and D: "debounced time n" and C: "crosses st n AxisX"
  shows "velocity (fst (stepNode time index n st)) = reflectX n st \<and>
         lastCollisionTime (fst (stepNode time index n st)) = time \<and>
         length (ripples (snd (stepNode time index n st))) =
           length (ripples st) + (if showRipples st then 1 else 0)"
proof -
  let ?n1 = "integrate time index st n"
  obtain a sa ca b sb cb d sd cd where
    X: "collideX time (?n1, st, False) = (a, sa, ca)" and
    Y: "collideY time (a, sa, ca) = (b, sb, cb)" and
    Z: "collideZ time (b, sb, cb) = (d, sd, cd)" and
    S: "stepNode time index n st =
       (spin sd cd (d\<lparr>angularVelocity := multiplyScalar (angularVelocity d) 0.98\<rparr>), sd)"
    by (rule stepNode_split)
  have bd: "0 \<le> boundaryX st" using validCamera_boundaries[OF V] by simp
  have c1: "crossesOutward (boundaryX st) (vec_x (position ?n1)) (vec_x (velocity ?n1))"
    using C by (simp add: crosses_def integrate_fields)
  have d1: "debounced time ?n1" using D by (simp add: debounced_def integrate_fields)
  have fx: "velocity a = reflectX ?n1 st" "lastCollisionTime a = time"
       "length (ripples sa) = length (ripples st) + (if showRipples st then 1 else 0)"
    using collideX_fires[OF X bd c1 d1] by simp_all
  have qy: "velocity b = velocity a" "lastCollisionTime b = lastCollisionTime a" "sb = sa"
    using collideY_quiet[OF Y] stamped_not_debounced[OF fx(2)] by simp_all
  have "\<not> debounced time b" by (rule stamped_not_debounced) (simp add: qy fx)
  then have qz: "velocity d = velocity b" "lastCollisionTime d = lastCollisionTime b" "sd = sb"
    using collideZ_quiet[OF Z] by simp_all
  have "reflectX ?n1 st = reflectX n st" by (simp add: reflectX_def integrate_fields)
  then show ?thesis using S fx qy qz by (simp add: spin_fields)
qed

lemma stepNode_firstY:
  assumes V: "validCamera st" and D: "debounced time n" and NX: "\<not> crosses st n AxisX"
    and C: "crosses st n AxisY"
  shows "velocity (fst (stepNode time index n st)) = reflectY n st \<and>
         lastCollisionTime (fst (stepNode time index n st)) = time \<and>
         length (ripples (snd (stepNode time index n st))) =
           length (ripples st) + (if showRipples st then 1 else 0)"
proof -
  let ?n1 = "integrate time index st n"
  obtain a sa ca b sb cb d sd cd where
    X: "collideX time (?n1, st, False) = (a, sa, ca)" and
    Y: "collideY time (a, sa, ca) = (b, sb, cb)" and
    Z: "collideZ time (b, sb, cb) = (d, sd, cd)" and
    S: "stepNode time index n st =
       (spin sd cd (d\<lparr>angularVelocity := multiplyScalar (angularVelocity d) 0.98\<rparr>), sd)"
    by (rule stepNode_split)
  have bd: "0 \<le> boundaryX st" "0 \<le> boundaryY st" using validCamera_boundaries[OF V] by simp_all
  have nx: "\<not> crossesOutward (boundaryX st) (vec_x (position ?n1)) (vec_x (velocity ?n1))"
    using NX by (simp add: crosses_def integrate_fields)
  have qx: "velocity a = velocity n" "lastCollisionTime a = lastCollisionTime n" "sa = st"
       "restitution a = restitution n"
    using collideX_quiet[OF X] nx by (simp_all add: integrate_fields)
  have pa: "vec_y (position a) = vec_y (moved st n)"
    using collideX_position[OF X bd(1)] by (simp add: integrate_fields)
  have c1: "crossesOutward (boundaryY sa) (vec_y (position a)) (vec_y (velocity a))"
    using C by (simp add: crosses_def qx pa)
  have d1: "debounced time a" using D by (simp add: debounced_def qx)
  have fy: "velocity b = reflectY a sa" "lastCollisionTime b = time"
       "length (ripples sb) = length (ripples sa) + (if showRipples sa then 1 else 0)"
    using collideY_fires[OF Y _ c1 d1] bd qx by simp_all
  have "\<not> debounced time b" by (rule stamped_not_debounced) (simp add: fy)
  then have qz: "velocity d = velocity b" "lastCollisionTime d = lastCollisionTime b" "sd = sb"
    using collideZ_quiet[OF Z] by simp_all
  have "reflectY a sa = reflectY n st" by (simp add: reflectY_def qx)
  then show ?thesis using S fy qx qz by (simp add: spin_fields)
qed

lemma stepNode_firstZ:
  assumes V: "validCamera st" and D: "debounced time n" and NX: "\<not> crosses st n AxisX"
    and NY: "\<not> crosses st n AxisY" and C: "crosses st n AxisZ"
  shows "velocity (fst (stepNode time index n st)) = reflectZ n st \<and>
         lastCollisionTime (fst (stepNode time index n st)) = time \<and>
         length (ripples (snd (stepNode time index n st))) =
           length (ripples st) + (if rippleWall st n AxisZ then 1 else 0)"
proof -
  let ?n1 = "integrate time index st n"
  obtain a sa ca b sb cb d sd cd where
    X: "collideX time (?n1, st, False) = (a, sa, ca)" and
    Y: "collideY time (a, sa, ca) = (b, sb, cb)" and
    Z: "collideZ time (b, sb, cb) = (d, sd, cd)" and
    S: "stepNode time index n st =
       (spin sd cd (d\<lparr>angularVelocity := multiplyScalar (angularVelocity d) 0.98\<rparr>), sd)"
    by (rule stepNode_split)
  have bd: "0 \<le> boundaryX st" "0 \<le> boundaryY st" using validCamera_boundaries[OF V] by simp_all
  have nx: "\<not> crossesOutward (boundaryX st) (vec_x (position ?n1)) (vec_x (velocity ?n1))"
    using NX by (simp add: crosses_def integrate_fields)
  have qx: "velocity a = velocity n" "lastCollisionTime a = lastCollisionTime n" "sa = st"
       "restitution a = restitution n"
    using collideX_quiet[OF X] nx by (simp_all add: integrate_fields)
  have pa: "vec_y (position a) = vec_y (moved st n)" "vec_z (position a) = vec_z (moved st n)"
    using collideX_position[OF X bd(1)] by (simp_all add: integrate_fields)
  have ny: "\<not> crossesOutward (boundaryY sa) (vec_y (position a)) (vec_y (velocity a))"
    using NY by (simp add: crosses_def qx pa)
  have qy: "velocity b = velocity n" "lastCollisionTime b = lastCollisionTime n" "sb = st"
       "restitution b = restitution n"
    using collideY_quiet[OF Y] ny qx by simp_all
  have pb: "vec_z (position b) = vec_z (moved st n)"
    using collideY_position[OF Y] bd qx pa by simp
  have c1: "crossesOutward boundaryZ (vec_z (position b)) (vec_z (velocity b))"
    using C by (simp add: crosses_def qy pb)
  have d1: "debounced time b" using D by (simp add: debounced_def qy)
  have fz: "velocity d = reflectZ b sb" "lastCollisionTime d = time"
    using collideZ_fires[OF Z c1 d1] by simp_all
  have rz: "length (ripples sd) = length (ripples st) + (if rippleWall st n AxisZ then 1 else 0)"
    using Z c1 d1 pb qy
    by (auto simp: collideZ_def Let_def emitRipple_def crossesOutward_def debounced_def
          rippleWall_def boundaryZ_def split: prod.splits if_splits dest!: impact_fields)
  have "reflectZ b sb = reflectZ n st" by (simp add: reflectZ_def qy)
  then show ?thesis using S fz rz by (simp add: spin_fields)
qed

lemma inside_not_crosses: "inside b p \<Longrightarrow> \<not> crossesOutward b p v"
  by (auto simp: inside_def crossesOutward_def)

lemma stepNode_first_axis:
  assumes V: "validCamera st" and D: "debounced time n" and C: "crosses st n a"
    and E: "\<forall>c. axisOrder c < axisOrder a \<longrightarrow> \<not> crosses st n c"
  shows "(\<forall>c. coord c (velocity (fst (stepNode time index n st))) =
            (if c = a then - coord a (velocity n) * restitution n * wallRestitution st
             else coord c (velocity n) * wallFriction st)) \<and>
         lastCollisionTime (fst (stepNode time index n st)) = time \<and>
         length (ripples (snd (stepNode time index n st))) =
           length (ripples st) + (if rippleWall st n a then 1 else 0)"
proof (cases a)
  case AxisX
  have "\<forall>c. coord c (reflectX n st) =
            (if c = AxisX then - coord AxisX (velocity n) * restitution n * wallRestitution st
             else coord c (velocity n) * wallFriction st)"
  proof
    fix c show "coord c (reflectX n st) =
            (if c = AxisX then - coord AxisX (velocity n) * restitution n * wallRestitution st
             else coord c (velocity n) * wallFriction st)"
      by (cases c) (simp_all add: reflectX_def Vector3_def)
  qed
  then show ?thesis using stepNode_firstX[OF V D, of index] C AxisX
    by (simp add: rippleWall_def)
next
  case AxisY
  have nx: "\<not> crosses st n AxisX" using E AxisY by simp
  have "\<forall>c. coord c (reflectY n st) =
            (if c = AxisY then - coord AxisY (velocity n) * restitution n * wallRestitution st
             else coord c (velocity n) * wallFriction st)"
  proof
    fix c show "coord c (reflectY n st) =
            (if c = AxisY then - coord AxisY (velocity n) * restitution n * wallRestitution st
             else coord c (velocity n) * wallFriction st)"
      by (cases c) (simp_all add: reflectY_def Vector3_def)
  qed
  then show ?thesis using stepNode_firstY[OF V D nx, of index] C AxisY
    by (simp add: rippleWall_def)
next
  case AxisZ
  have nx: "\<not> crosses st n AxisX" "\<not> crosses st n AxisY" using E AxisZ by simp_all
  have "\<forall>c. coord c (reflectZ n st) =
            (if c = AxisZ then - coord AxisZ (velocity n) * restitution n * wallRestitution st
             else coord c (velocity n) * wallFriction st)"
  proof
    fix c show "coord c (reflectZ n st) =
            (if c = AxisZ then - coord AxisZ (velocity n) * restitution n * wallRestitution st
             else coord c (velocity n) * wallFriction st)"
      by (cases c) (simp_all add: reflectZ_def Vector3_def)
  qed
  then show ?thesis using stepNode_firstZ[OF V D nx, of index] C AxisZ
    by simp
qed

lemma collideX_clamp:
  assumes "collideX time (n, st, c) = (n', st', c')" and "0 \<le> boundaryX st"
    and "vec_x (position n) > boundaryX st \<or> vec_x (position n) < - boundaryX st"
  shows "\<bar>vec_x (position n')\<bar> = boundaryX st"
  using assms
  by (auto simp: collideX_def Let_def split: prod.splits if_splits dest!: impact_fields)

lemma collideY_clamp:
  assumes "collideY time (n, st, c) = (n', st', c')" and "0 \<le> boundaryY st"
    and "vec_y (position n) > boundaryY st \<or> vec_y (position n) < - boundaryY st"
  shows "\<bar>vec_y (position n')\<bar> = boundaryY st"
  using assms
  by (auto simp: collideY_def Let_def split: prod.splits if_splits dest!: impact_fields)

lemma collideZ_clamp:
  assumes "collideZ time (n, st, c) = (n', st', c')"
    and "vec_z (position n) > boundaryZ \<or> vec_z (position n) < - boundaryZ"
  shows "\<bar>vec_z (position n')\<bar> = boundaryZ"
  using assms
  by (auto simp: collideZ_def Let_def boundaryZ_def split: prod.splits if_splits dest!: impact_fields)

lemma stepNode_clamped:
  assumes V: "validCamera st"
    and O: "coord a (moved st n) > boundary st a \<or> coord a (moved st n) < - boundary st a"
  shows "\<bar>coord a (position (fst (stepNode time index n st)))\<bar> = boundary st a"
proof -
  let ?n1 = "integrate time index st n"
  obtain p sp cp q sq cq d sd cd where
    X: "collideX time (?n1, st, False) = (p, sp, cp)" and
    Y: "collideY time (p, sp, cp) = (q, sq, cq)" and
    Z: "collideZ time (q, sq, cq) = (d, sd, cd)" and
    S: "stepNode time index n st =
       (spin sd cd (d\<lparr>angularVelocity := multiplyScalar (angularVelocity d) 0.98\<rparr>), sd)"
    by (rule stepNode_split)
  have bd: "0 \<le> boundaryX st" "0 \<le> boundaryY st" using validCamera_boundaries[OF V] by simp_all
  have px: "vec_y (position p) = vec_y (moved st n)" "vec_z (position p) = vec_z (moved st n)"
      "camera_fov sp = camera_fov st" "camera_aspect sp = camera_aspect st"
    using collideX_position[OF X bd(1)] by (simp_all add: integrate_fields)
  have bY: "boundaryY sp = boundaryY st" using boundary_cong[OF px(3) px(4)] by simp
  have py: "vec_x (position q) = vec_x (position p)" "vec_z (position q) = vec_z (moved st n)"
    using collideY_position[OF Y] bd bY px by simp_all
  have pz: "vec_x (position d) = vec_x (position p)" "vec_y (position d) = vec_y (position q)"
    using collideZ_position[OF Z] py by simp_all
  have fin: "position (fst (stepNode time index n st)) = position d"
    by (simp add: S spin_fields)
  show ?thesis
  proof (cases a)
    case AxisX
    then have "vec_x (position ?n1) > boundaryX st \<or> vec_x (position ?n1) < - boundaryX st"
      using O by (simp add: integrate_fields)
    from collideX_clamp[OF X bd(1) this] show ?thesis using AxisX fin pz by simp
  next
    case AxisY
    then have "vec_y (position p) > boundaryY sp \<or> vec_y (position p) < - boundaryY sp"
      using O px bY by simp
    from collideY_clamp[OF Y _ this] show ?thesis using AxisY fin pz bY bd by simp
  next
    case AxisZ
    then have "vec_z (position q) > boundaryZ \<or> vec_z (position q) < - boundaryZ"
      using O py by simp
    from collideZ_clamp[OF Z this] show ?thesis using AxisZ fin by simp
  qed
qed

lemma crosses_outside:
  "crosses st n a \<Longrightarrow> coord a (moved st n) > boundary st a \<or> coord a (moved st n) < - boundary st a"
  by (auto simp: crosses_def crossesOutward_def)

lemma sampleState_valid: "validCamera sampleState"
  by (simp add: validCamera_def sampleState_def constructed_def)

lemma sampleState_fields:
  "nodeSpeed sampleState = 0.5 \<and> wallRestitution sampleState = 0.7 \<and>
   wallFriction sampleState = 0.95 \<and> showRipples sampleState \<and> ripples sampleState = []"
  by (simp add: sampleState_def constructed_def)

lemma wallNode_fields:
  "moved sampleState wallNode = Vector3 (boundaryX sampleState + 0.04) 0 0 \<and>
   velocity wallNode = Vector3 0.1 0.01 0 \<and> restitution wallNode = 0.8 \<and>
   lastCollisionTime wallNode = 0"
  by (simp add: wallNode_def nodeAt_def moved_def vec_add_def multiplyScalar_def Vector3_def
        sampleState_fields)

lemma cornerNode_fields:
  "moved sampleState cornerNode =
     Vector3 (boundaryX sampleState + 0.04) (boundaryY sampleState + 0.04) 0 \<and>
   velocity cornerNode = Vector3 0.1 0.1 0 \<and> restitution cornerNode = 0.8 \<and>
   lastCollisionTime cornerNode = 0"
  by (simp add: cornerNode_def nodeAt_def moved_def vec_add_def multiplyScalar_def Vector3_def
        sampleState_fields)

lemma cornerNode_crosses:
  "debounced 1 cornerNode \<and> crosses sampleState cornerNode AxisX \<and>
   crosses sampleState cornerNode AxisY"
  by (simp add: debounced_def minTimeBetweenCollisions_def crosses_def crossesOutward_def
        cornerNode_fields Vector3_def)

text \<open>
  C1. After every step of the node motion every node lies in the box: each coordinate is
  within the half-extent computed from the camera in that step, whatever the time of its
  last collision; no node is added or dropped.
\<close>

theorem boundary_containment:
  assumes "validCamera st"
  shows "(\<forall>n \<in> set (nodes (updateNodes time st)). inBox st n) \<and>
         length (nodes (updateNodes time st)) = length (nodes st)"
proof -
  obtain ns st' where U: "updateNodesFrom time 0 (nodes st) st = (ns, st')"
    by (cases "updateNodesFrom time 0 (nodes st) st")
  have "nodes (updateNodes time st) = ns" by (simp add: updateNodes_def U)
  then show ?thesis using updateNodesFrom_inBox[OF U assms] by simp
qed

theorem boundary_containment_witness:
  "validCamera (sampleState\<lparr>nodes := [cornerNode, wallNode]\<rparr>) \<and>
   list_all (inBox (sampleState\<lparr>nodes := [cornerNode, wallNode]\<rparr>))
     (nodes (updateNodes 1 (sampleState\<lparr>nodes := [cornerNode, wallNode]\<rparr>))) \<and>
   length (nodes (updateNodes 1 (sampleState\<lparr>nodes := [cornerNode, wallNode]\<rparr>))) = 2"
proof -
  have v: "validCamera (sampleState\<lparr>nodes := [cornerNode, wallNode]\<rparr>)"
    using sampleState_valid by (simp add: validCamera_def)
  show ?thesis using v boundary_containment[OF v, of 1]
    by (simp add: list_all_iff)
qed

text \<open>
  C2. A node that crosses the boundary on one axis with outward velocity, more than 0.1
  seconds after its last collision, while its other two coordinates stay inside: the step
  sets the velocity component of that axis to \<open>- v * r * R\<close> (\<open>r\<close> the restitution of
  the node, \<open>R\<close> the wall restitution) and multiplies each of the other two components
  by the wall friction.
\<close>

theorem wall_collision_response:
  assumes "validCamera st" and "debounced time n" and "crosses st n a"
    and "\<forall>b. b \<noteq> a \<longrightarrow> inside (boundary st b) (coord b (moved st n))"
  shows "\<forall>c. coord c (velocity (fst (stepNode time index n st))) =
           (if c = a then - coord a (velocity n) * restitution n * wallRestitution st
            else coord c (velocity n) * wallFriction st)"
proof -
  have "\<forall>c. axisOrder c < axisOrder a \<longrightarrow> \<not> crosses st n c"
  proof (intro allI impI)
    fix c assume "axisOrder c < axisOrder a"
    then have "c \<noteq> a" by auto
    then have "inside (boundary st c) (coord c (moved st n))" using assms(4) by simp
    then show "\<not> crosses st n c" by (simp add: crosses_def inside_not_crosses)
  qed
  then show ?thesis using stepNode_first_axis[OF assms(1) assms(2) assms(3)] by simp
qed

theorem wall_collision_response_witness:
  "validCamera sampleState \<and> debounced 1 wallNode \<and> crosses sampleState wallNode AxisX \<and>
   inside (boundary sampleState AxisY) (coord AxisY (moved sampleState wallNode)) \<and>
   inside (boundary sampleState AxisZ) (coord AxisZ (moved sampleState wallNode)) \<and>
   vec_x (velocity (fst (stepNode 1 0 wallNode sampleState))) = - 0.1 * 0.8 * 0.7 \<and>
   vec_y (velocity (fst (stepNode 1 0 wallNode sampleState))) = 0.01 * 0.95 \<and>
   vec_z (velocity (fst (stepNode 1 0 wallNode sampleState))) = 0 * 0.95"
proof -
  have v: "validCamera sampleState" by (rule sampleState_valid)
  have d: "debounced 1 wallNode"
    by (simp add: debounced_def minTimeBetweenCollisions_def wallNode_fields)
  have c: "crosses sampleState wallNode AxisX"
    by (simp add: crosses_def crossesOutward_def wallNode_fields Vector3_def)
  have iy: "inside (boundary sampleState AxisY) (coord AxisY (moved sampleState wallNode))"
    using validCamera_boundaries[OF v] by (simp add: inside_def wallNode_fields Vector3_def)
  have iz: "inside (boundary sampleState AxisZ) (coord AxisZ (moved sampleState wallNode))"
    using validCamera_boundaries[OF v] by (simp add: inside_def wallNode_fields Vector3_def)
  have o: "\<forall>b. b \<noteq> AxisX \<longrightarrow> inside (boundary sampleState b) (coord b (moved sampleState wallNode))"
  proof (intro allI impI)
    fix b :: axis assume "b \<noteq> AxisX"
    then show "inside (boundary sampleState b) (coord b (moved sampleState wallNode))"
      using iy iz by (cases b) simp_all
  qed
  have r: "\<forall>c. coord c (velocity (fst (stepNode 1 0 wallNode sampleState))) =
           (if c = AxisX then - coord AxisX (velocity wallNode) * restitution wallNode * wallRestitution sampleState
            else coord c (velocity wallNode) * wallFriction sampleState)"
    by (rule wall_collision_response[OF v d c o])
  have "vec_x (velocity (fst (stepNode 1 0 wallNode sampleState))) = - 0.1 * 0.8 * 0.7"
    using r[rule_format, of AxisX] by (simp add: wallNode_fields sampleState_fields Vector3_def)
  moreover have "vec_y (velocity (fst (stepNode 1 0 wallNode sampleState))) = 0.01 * 0.95"
    using r[rule_format, of AxisY] by (simp add: wallNode_fields sampleState_fields Vector3_def)
  moreover have "vec_z (velocity (fst (stepNode 1 0 wallNode sampleState))) = 0 * 0.95"
    using r[rule_format, of AxisZ] by (simp add: wallNode_fields sampleState_fields Vector3_def)
  ultimately show ?thesis using v d c iy iz by blast
qed

text \<open>
  C3, as stated, fails: a node that crosses the right wall and the ceiling in one step, with
  outward velocity on both axes and its last collision one second ago, gets the response
  of the right wall only. Its vertical velocity is multiplied by the wall friction and not
  reflected, and one ripple is emitted instead of two.
\<close>

theorem two_axis_collision_counterexample:
  "validCamera sampleState \<and> debounced 1 cornerNode \<and>
   crosses sampleState cornerNode AxisX \<and> crosses sampleState cornerNode AxisY \<and>
   showRipples sampleState \<and> ripples sampleState = [] \<and>
   vec_y (velocity (fst (stepNode 1 0 cornerNode sampleState))) = 0.095 \<and>
   vec_y (velocity (fst (stepNode 1 0 cornerNode sampleState))) \<noteq>
     - vec_y (velocity cornerNode) * restitution cornerNode * wallRestitution sampleState \<and>
   length (ripples (snd (stepNode 1 0 cornerNode sampleState))) = 1"
proof -
  have v: "validCamera sampleState" by (rule sampleState_valid)
  have c: "debounced 1 cornerNode" "crosses sampleState cornerNode AxisX"
      "crosses sampleState cornerNode AxisY"
    using cornerNode_crosses by simp_all
  have s: "velocity (fst (stepNode 1 0 cornerNode sampleState)) = reflectX cornerNode sampleState"
     "length (ripples (snd (stepNode 1 0 cornerNode sampleState))) =
           length (ripples sampleState) + (if showRipples sampleState then 1 else 0)"
    using stepNode_firstX[OF v c(1) c(2), of 0] by simp_all
  have y: "vec_y (velocity (fst (stepNode 1 0 cornerNode sampleState))) = 0.095"
    by (simp add: s reflectX_def cornerNode_fields sampleState_fields Vector3_def)
  have n: "- vec_y (velocity cornerNode) * restitution cornerNode * wallRestitution sampleState = - 0.056"
    by (simp add: cornerNode_fields sampleState_fields Vector3_def)
  have l: "length (ripples (snd (stepNode 1 0 cornerNode sampleState))) = 1"
    by (simp add: s sampleState_fields)
  have ne: "vec_y (velocity (fst (stepNode 1 0 cornerNode sampleState))) \<noteq>
     - vec_y (velocity cornerNode) * restitution cornerNode * wallRestitution sampleState"
    unfolding y n by simp
  show ?thesis using v c y ne l sampleState_fields by blast
qed

text \<open>
  C3, amended. When a node crosses the boundary on two axes in one step, with outward
  velocity on both and its last collision more than 0.1 seconds ago, the two coordinates
  are clamped, and the response fires for the first of the crossed axes in the order X,
  Y, Z only: that component is reflected, the component of the later axis is multiplied
  by the wall friction, the collision time is stamped, and one ripple is emitted when
  ripples are shown. The stamp makes the debounce test of the later axis fail.
\<close>

theorem two_axis_collision_first_only:
  assumes "validCamera st" and "debounced time n"
    and "crosses st n a" and "crosses st n b" and "axisOrder a < axisOrder b"
    and "\<forall>c. axisOrder c < axisOrder a \<longrightarrow> \<not> crosses st n c"
  shows "coord a (velocity (fst (stepNode time index n st))) =
           - coord a (velocity n) * restitution n * wallRestitution st \<and>
         coord b (velocity (fst (stepNode time index n st))) = coord b (velocity n) * wallFriction st \<and>
         lastCollisionTime (fst (stepNode time index n st)) = time \<and>
         \<bar>coord a (position (fst (stepNode time index n st)))\<bar> = boundary st a \<and>
         \<bar>coord b (position (fst (stepNode time index n st)))\<bar> = boundary st b \<and>
         length (ripples (snd (stepNode time index n st))) =
           length (ripples st) + (if showRipples st then 1 else 0)"
proof -
  have ne: "b \<noteq> a" using assms(5) by auto
  have nz: "a \<noteq> AxisZ" using assms(5) by (cases a; cases b) simp_all
  have f: "\<forall>c. coord c (velocity (fst (stepNode time index n st))) =
            (if c = a then - coord a (velocity n) * restitution n * wallRestitution st
             else coord c (velocity n) * wallFriction st)"
       "lastCollisionTime (fst (stepNode time index n st)) = time"
       "length (ripples (snd (stepNode time index n st))) =
           length (ripples st) + (if rippleWall st n a then 1 else 0)"
    using stepNode_first_axis[OF assms(1) assms(2) assms(3) assms(6), of index] by simp_all
  have va: "coord a (velocity (fst (stepNode time index n st))) =
           - coord a (velocity n) * restitution n * wallRestitution st"
    using f(1)[rule_format, of a] by simp
  have vb: "coord b (velocity (fst (stepNode time index n st))) = coord b (velocity n) * wallFriction st"
    using f(1)[rule_format, of b] ne by simp
  have pa: "\<bar>coord a (position (fst (stepNode time index n st)))\<bar> = boundary st a"
    by (rule stepNode_clamped[OF assms(1) crosses_outside[OF assms(3)]])
  have pb: "\<bar>coord b (position (fst (stepNode time index n st)))\<bar> = boundary st b"
    by (rule stepNode_clamped[OF assms(1) crosses_outside[OF assms(4)]])
  have rw: "rippleWall st n a = showRipples st" using nz by (simp add: rippleWall_def)
  show ?thesis using va vb f(2) pa pb f(3) rw by simp
qed

theorem two_axis_collision_first_only_witness:
  "validCamera sampleState \<and> debounced 1 cornerNode \<and>
   crosses sampleState cornerNode AxisX \<and> crosses sampleState cornerNode AxisY \<and>
   axisOrder AxisX < axisOrder AxisY \<and>
   vec_x (velocity (fst (stepNode 1 0 cornerNode sampleState))) = - 0.1 * 0.8 * 0.7 \<and>
   vec_y (velocity (fst (stepNode 1 0 cornerNode sampleState))) = 0.1 * 0.95 \<and>
   lastCollisionTime (fst (stepNode 1 0 cornerNode sampleState)) = 1 \<and>
   \<bar>vec_x (position (fst (stepNode 1 0 cornerNode sampleState)))\<bar> = boundaryX sampleState \<and>
   \<bar>vec_y (position (fst (stepNode 1 0 cornerNode sampleState)))\<bar> = boundaryY sampleState \<and>
   length (ripples (snd (stepNode 1 0 cornerNode sampleState))) = 1"
proof -
  have v: "validCamera sampleState" by (rule sampleState_valid)
  have c: "debounced 1 cornerNode" "crosses sampleState cornerNode AxisX"
      "crosses sampleState cornerNode AxisY"
    using cornerNode_crosses by simp_all
  have o: "axisOrder AxisX < axisOrder AxisY" by simp
  have e: "\<forall>c. axisOrder c < axisOrder AxisX \<longrightarrow> \<not> crosses sampleState cornerNode c" by simp
  note t = two_axis_collision_first_only[OF v c(1) c(2) c(3) o e, of 0]
  have "vec_x (velocity (fst (stepNode 1 0 cornerNode sampleState))) = - 0.1 * 0.8 * 0.7"
    using t by (simp add: cornerNode_fields sampleState_fields Vector3_def)
  moreover have "vec_y (velocity (fst (stepNode 1 0 cornerNode sampleState))) = 0.1 * 0.95"
    using t by (simp add: cornerNode_fields sampleState_fields Vector3_def)
  moreover have "lastCollisionTime (fst (stepNode 1 0 cornerNode sampleState)) = 1"
    using t by simp
  moreover have "\<bar>vec_x (position (fst (stepNode 1 0 cornerNode sampleState)))\<bar> = boundaryX sampleState"
    using t by simp
  moreover have "\<bar>vec_y (position (fst (stepNode 1 0 cornerNode sampleState)))\<bar> = boundaryY sampleState"
    using t by simp
  moreover have "length (ripples (snd (stepNode 1 0 cornerNode sampleState))) = 1"
    using t by (simp add: sampleState_fields)
  ultimately show ?thesis using v c o by blast
qed

section \<open>Particles and ripples: properties\<close>

lemma spawnParticles_no_fault: "spawnParticles st \<noteq> Inl e"
proof (cases "showParticles st \<and> length (nodes st) > 1")
  case True
  then have "real (length (nodes st)) * (real (length (nodes st)) - 1) / 2 \<noteq> 0" by auto
  then show ?thesis using True
    by (simp add: spawnParticles_def divide_checked_def Let_def)
next
  case False
  then show ?thesis by (auto simp add: spawnParticles_def)
qed

text \<open>
  C9. The particle update never divides by zero pairs, and with fewer than two nodes the
  spawn step leaves the state as it is: no draw, no new particle; the particles are the
  survivors of the ageing loop.
\<close>

theorem degenerate_node_counts:
  "(\<forall>e. updateParticles st \<noteq> Inl e) \<and>
   (length (nodes st) < 2 \<longrightarrow>
      spawnParticles st = Inr st \<and>
      updateParticles st = Inr (st\<lparr>particles := List.map_filter ageParticle (particles st)\<rparr>))"
proof -
  have "\<forall>e. updateParticles st \<noteq> Inl e"
    by (simp add: updateParticles_def spawnParticles_no_fault)
  moreover have "length (nodes st) < 2 \<longrightarrow>
      spawnParticles st = Inr st \<and>
      updateParticles st = Inr (st\<lparr>particles := List.map_filter ageParticle (particles st)\<rparr>)"
    by (simp add: updateParticles_def spawnParticles_def)
  ultimately show ?thesis by blast
qed

theorem degenerate_node_counts_witness:
  "length (nodes sampleState) < 2 \<and> spawnParticles sampleState = Inr sampleState \<and>
   length (nodes (sampleState\<lparr>nodes := [wallNode]\<rparr>)) < 2 \<and>
   updateParticles (sampleState\<lparr>nodes := [wallNode]\<rparr>) =
     Inr (sampleState\<lparr>nodes := [wallNode], particles := []\<rparr>)"
proof -
  have a: "length (nodes sampleState) < 2" by (simp add: sampleState_def constructed_def)
  have b: "length (nodes (sampleState\<lparr>nodes := [wallNode]\<rparr>)) < 2" by simp
  have p: "particles sampleState = []" by (simp add: sampleState_def constructed_def)
  show ?thesis
    using a b degenerate_node_counts[of sampleState]
      degenerate_node_counts[of "sampleState\<lparr>nodes := [wallNode]\<rparr>"]
    by (simp add: p map_filter_simps)
qed

lemma updateRipple_None: "updateRipple r = None \<longleftrightarrow> age r + deltaTime \<ge> maxAge r"
  by (simp add: updateRipple_def Let_def)

lemma updateRipple_Some:
  assumes "updateRipple r = Some r'"
  shows "age r' = age r + deltaTime \<and> age r' < maxAge r' \<and> maxAge r' = maxAge r \<and>
         maxRadius r' = maxRadius r \<and>
         ripple_opacity r' = 0.6 * (1 - (age r' / maxAge r') ^ 3) \<and>
         ripple_scale r' = maxRadius r' * (age r' / maxAge r')"
  using assms by (auto simp: updateRipple_def Let_def power3_eq_cube split: if_splits)

lemma rippleAfter_created:
  assumes "age r = 0" and "real k * deltaTime < maxAge r"
  shows "\<exists>r'. rippleAfter k r = Some r' \<and> age r' = real k * deltaTime \<and> maxAge r' = maxAge r"
  using assms(2)
proof (induction k)
  case 0
  then show ?case using assms(1) by simp
next
  case (Suc k)
  have "real k * deltaTime < maxAge r" using Suc.prems by (simp add: deltaTime_def field_simps)
  then obtain r' where r': "rippleAfter k r = Some r'" "age r' = real k * deltaTime"
      "maxAge r' = maxAge r"
    using Suc.IH by blast
  have "\<not> age r' + deltaTime \<ge> maxAge r'" using Suc.prems r' by (simp add: field_simps)
  then obtain r'' where r'': "updateRipple r' = Some r''"
    using updateRipple_None[of r'] by (cases "updateRipple r'") auto
  have "age r'' = real (Suc k) * deltaTime \<and> maxAge r'' = maxAge r"
    using updateRipple_Some[OF r''] r' by (simp add: field_simps)
  then show ?case using r' r'' by simp
qed

text \<open>
  C7, as stated, fails: a ripple with a duration of 0.51 seconds is alive after 30 updates,
  at age 0.5, and is removed by the next update, which brings its age to 31/60. Its age
  is never equal to the duration.
\<close>

theorem ripple_retirement_counterexample:
  "age shortRipple = 0 \<and> maxAge shortRipple = 51 / 100 \<and>
   rippleAfter 30 shortRipple \<noteq> None \<and>
   age (the (rippleAfter 30 shortRipple)) = 1 / 2 \<and>
   age (the (rippleAfter 30 shortRipple)) < maxAge (the (rippleAfter 30 shortRipple)) \<and>
   rippleAfter (Suc 30) shortRipple = None \<and>
   age (the (rippleAfter 30 shortRipple)) + deltaTime = 31 / 60 \<and>
   age (the (rippleAfter 30 shortRipple)) + deltaTime \<noteq> maxAge (the (rippleAfter 30 shortRipple))"
proof -
  have c: "age shortRipple = 0" "maxAge shortRipple = 51 / 100"
    by (simp_all add: shortRipple_def createRipple_def)
  have "real 30 * deltaTime < maxAge shortRipple" by (simp add: c deltaTime_def)
  from rippleAfter_created[OF c(1) this]
  obtain r where r: "rippleAfter 30 shortRipple = Some r" "age r = real 30 * deltaTime"
      "maxAge r = maxAge shortRipple"
    by blast
  have a: "age r = 1 / 2" using r by (simp add: deltaTime_def)
  have m: "maxAge r = 51 / 100" using r c by simp
  have n: "updateRipple r = None" using a m by (simp add: updateRipple_None deltaTime_def)
  have s: "rippleAfter (Suc 30) shortRipple = None"
    unfolding rippleAfter.simps r(1) by (simp add: n)
  have e: "age r + deltaTime = 31 / 60" using a by (simp add: deltaTime_def)
  have d: "age r + deltaTime \<noteq> maxAge r" using a m by (simp add: deltaTime_def)
  have l: "age r < maxAge r" using a m by simp
  show ?thesis using c r(1) a l s e d by simp
qed

text \<open>
  C7, amended. An update removes a ripple exactly when its new age reaches or exceeds the
  duration captured at the spawn, never while the age is below it. A ripple that is kept
  has the opacity \<open>0.6 * (1 - (age / maxAge) ^ 3)\<close>, and the next update that keeps
  it lowers the opacity strictly.
\<close>

theorem ripple_lifecycle:
  assumes "0 \<le> age r"
  shows "(updateRipple r = None \<longleftrightarrow> age r + deltaTime \<ge> maxAge r) \<and>
         (\<forall>r'. updateRipple r = Some r' \<longrightarrow>
            age r' = age r + deltaTime \<and> 0 < age r' \<and> age r' < maxAge r' \<and>
            maxAge r' = maxAge r \<and>
            ripple_opacity r' = 0.6 * (1 - (age r' / maxAge r') ^ 3) \<and>
            (\<forall>r''. updateRipple r' = Some r'' \<longrightarrow> ripple_opacity r'' < ripple_opacity r'))"
proof (intro conjI allI impI)
  show "updateRipple r = None \<longleftrightarrow> age r + deltaTime \<ge> maxAge r" by (rule updateRipple_None)
next
  fix r' assume u: "updateRipple r = Some r'"
  note f = updateRipple_Some[OF u]
  show "age r' = age r + deltaTime" using f by simp
  show "0 < age r'" using f assms by (simp add: deltaTime_def)
  show "age r' < maxAge r'" using f by simp
  show "maxAge r' = maxAge r" using f by simp
  show "ripple_opacity r' = 0.6 * (1 - (age r' / maxAge r') ^ 3)" using f by simp
next
  fix r' r'' assume u: "updateRipple r = Some r'" and v: "updateRipple r' = Some r''"
  note f = updateRipple_Some[OF u]
  note g = updateRipple_Some[OF v]
  have pos: "0 < age r'" using f assms by (simp add: deltaTime_def)
  have m: "0 < maxAge r'" using pos f by linarith
  have "age r' < age r''" using g by (simp add: deltaTime_def)
  then have "age r' / maxAge r' < age r'' / maxAge r''" using m g
    by (simp add: divide_strict_right_mono)
  moreover
  moreover have "0 \<le> age r' / maxAge r'" using pos m by simp
  ultimately have lt: "(age r' / maxAge r') ^ 3 < (age r'' / maxAge r'') ^ 3"
    by (simp add: power_strict_mono)
  have o1: "ripple_opacity r' = 0.6 * (1 - (age r' / maxAge r') ^ 3)" using f by blast
  have o2: "ripple_opacity r'' = 0.6 * (1 - (age r'' / maxAge r'') ^ 3)" using g by blast
  show "ripple_opacity r'' < ripple_opacity r'" unfolding o1 o2 using lt by simp
qed

theorem ripple_lifecycle_witness:
  "0 \<le> age shortRipple \<and> updateRipple shortRipple \<noteq> None \<and>
   age (the (updateRipple shortRipple)) = 1 / 60 \<and>
   ripple_opacity (the (updateRipple (the (updateRipple shortRipple)))) <
     ripple_opacity (the (updateRipple shortRipple))"
proof -
  have c: "age shortRipple = 0" "maxAge shortRipple = 51 / 100"
    by (simp_all add: shortRipple_def createRipple_def)
  have z: "0 \<le> age shortRipple" using c by simp
  note t = ripple_lifecycle[OF z]
  have n: "updateRipple shortRipple \<noteq> None" using t c by (simp add: deltaTime_def)
  then obtain r' where r': "updateRipple shortRipple = Some r'" by auto
  have a: "age r' = 1 / 60" "maxAge r' = 51 / 100" using t r' c by (simp_all add: deltaTime_def)
  have "updateRipple r' \<noteq> None" using a by (simp add: updateRipple_None deltaTime_def)
  then obtain r'' where r'': "updateRipple r' = Some r''" by auto
  have "ripple_opacity r'' < ripple_opacity r'" using t r' r'' by blast
  then show ?thesis using z n r' r'' a by simp
qed

section \<open>Transitions: properties\<close>

text \<open>
  C5. While a transition is in flight, a request to start another one changes nothing:
  the state, and with it the stored presets, the start time, the duration and the easing,
  is the same afterwards. Nothing is queued.
\<close>

theorem second_transition_ignored:
  assumes "isTransitioning st"
  shows "startTransition now toP st = st"
  using assms by (simp add: startTransition_def)

lemma inFlight_transitioning:
  "isTransitioning inFlight \<and> toPreset inFlight = Some targetPreset \<and>
   fromPreset inFlight = Some (getCurrentPreset sampleState) \<and>
   transitionStartTime inFlight = 0 \<and> transitionDuration inFlight = 2 \<and>
   transitionEasing inFlight = ''ease-in-out''"
  by (simp add: inFlight_def startTransition_def sampleState_def constructed_def)

theorem second_transition_ignored_witness:
  "isTransitioning inFlight \<and>
   startTransition 500 (getCurrentPreset sampleState) inFlight = inFlight \<and>
   toPreset (startTransition 500 (getCurrentPreset sampleState) inFlight) = Some targetPreset \<and>
   transitionStartTime (startTransition 500 (getCurrentPreset sampleState) inFlight) = 0"
proof -
  have t: "isTransitioning inFlight" using inFlight_transitioning by simp
  show ?thesis
    using t second_transition_ignored[OF t, of 500 "getCurrentPreset sampleState"]
      inFlight_transitioning by simp
qed

lemma Math_round_int: "Math_round (real_of_int k) = k"
  by (simp add: Math_round_def)

lemma lerpChannel_at_1: "lerpChannel a b 1 = b"
proof -
  have "unat b < 2 ^ LENGTH(8)" by (rule unsigned_less)
  then have "unat b \<le> 255" by simp
  then have "real (unat b) \<le> 255" by (simp del: of_nat_unat)
  then have "max 0 (min 255 (real (unat b))) = real (unat b)" by (simp del: of_nat_unat)
  then have "Math_round (max 0 (min 255 (real (unat b)))) = int (unat b)"
    using Math_round_int[of "int (unat b)"] by (simp del: of_nat_unat)
  moreover have "word_of_nat (unat b) = b" by simp
  ultimately show ?thesis by (simp add: lerpChannel_def Let_def del: of_nat_unat)
qed

lemma lerpColor_at_1: "lerpColor a b 1 = b"
  by (simp add: lerpColor_def lerpChannel_at_1)

lemma interpolate_at_1:
  "getCurrentPreset (interpolate lerp fromP toP 1 st) = toP\<lparr>name := name st\<rparr>"
  by (simp add: getCurrentPreset_def preset.truncate_def interpolate_def lerp_at_1
        lerpColor_at_1 Math_round_int)

lemma sameSettings_refl: "sameSettings a a"
  by (simp add: sameSettings_def)

lemma sameSettings_trans: "sameSettings a b \<Longrightarrow> sameSettings b c \<Longrightarrow> sameSettings a c"
  by (simp add: sameSettings_def)

lemma sameSettings_pools:
  "sameSettings (st\<lparr>nodes := ns\<rparr>) st \<and> sameSettings (st\<lparr>particles := ps\<rparr>) st \<and>
   sameSettings (st\<lparr>ripples := rs\<rparr>) st \<and> sameSettings (st\<lparr>rng := g\<rparr>) st \<and>
   sameSettings (st\<lparr>nodes := ns, rng := g\<rparr>) st"
  by (simp add: sameSettings_def getCurrentPreset_def preset.truncate_def)

lemma createLoop_settings:
  "sameSettings (createLoop k i width height depth positions st) st"
proof (induction k arbitrary: i st)
  case 0
  then show ?case by (simp add: sameSettings_refl)
next
  case (Suc k)
  obtain pos g0 where a:
    "(if i < length positions then (positions ! i, rng st)
      else randomPoint width height (depth * 0.8) (rng st)) = (pos, g0)"
    by (cases "(if i < length positions then (positions ! i, rng st)
      else randomPoint width height (depth * 0.8) (rng st))")
  obtain n g1 where b: "newNode (nodeColor st) pos g0 = (n, g1)"
    by (cases "newNode (nodeColor st) pos g0")
  have "createLoop (Suc k) i width height depth positions st =
        createLoop k (Suc i) width height depth positions (st\<lparr>nodes := nodes st @ [n], rng := g1\<rparr>)"
    unfolding createLoop.simps Let_def a prod.case b by (rule refl)
  then show ?case
    using Suc.IH[of "Suc i" "st\<lparr>nodes := nodes st @ [n], rng := g1\<rparr>"] sameSettings_pools
    by (metis sameSettings_trans)
qed

lemma recreateNodes_settings: "sameSettings (recreateNodes st) st"
proof -
  obtain positions g where a:
    "generatePoissonDiskSampling (nodeCount (st\<lparr>nodes := []\<rparr>)) (frustumWidth (st\<lparr>nodes := []\<rparr>))
       (frustumHeight (st\<lparr>nodes := []\<rparr>)) (20 * 0.8) (rng (st\<lparr>nodes := []\<rparr>)) = (positions, g)"
    by (cases "generatePoissonDiskSampling (nodeCount (st\<lparr>nodes := []\<rparr>)) (frustumWidth (st\<lparr>nodes := []\<rparr>))
       (frustumHeight (st\<lparr>nodes := []\<rparr>)) (20 * 0.8) (rng (st\<lparr>nodes := []\<rparr>))")
  have "recreateNodes st =
        createLoop (nat (nodeCount (st\<lparr>nodes := []\<rparr>))) 0 (frustumWidth (st\<lparr>nodes := []\<rparr>))
          (frustumHeight (st\<lparr>nodes := []\<rparr>)) 20 positions (st\<lparr>nodes := [], rng := g\<rparr>)"
    unfolding recreateNodes_def createNodes_def Let_def a prod.case by simp
  then show ?thesis using createLoop_settings sameSettings_pools
    by (metis sameSettings_trans)
qed

lemma visuals_settings:
  "sameSettings (updateRippleVisibility (updateParticleVisibility (updateNodeColors st))) st"
  by (simp add: updateRippleVisibility_def updateParticleVisibility_def updateNodeColors_def
        clearAllRipples_def clearAllParticles_def sameSettings_def getCurrentPreset_def
        preset.truncate_def)

lemma getCurrentPreset_finish:
  "getCurrentPreset
     (st\<lparr>isTransitioning := False, name := n, fromPreset := None, toPreset := None\<rparr>) =
   (getCurrentPreset st)\<lparr>name := n\<rparr>"
  by (simp add: getCurrentPreset_def preset.truncate_def)

lemma updateTransition_by_unfold:
  assumes "isTransitioning st" and "fromPreset st = Some fromP" and "toPreset st = Some toP"
  obtains st3 where
    "sameSettings st3
       (interpolate blend fromP toP (getEasingFunction (transitionEasing st) (rawProgress now st)) st)"
    "updateTransition_by blend now st =
       (if rawProgress now st \<ge> 1
        then st3\<lparr>isTransitioning := False, name := name toP, fromPreset := None, toPreset := None\<rparr>
        else st3)"
proof -
  define st1 where
    "st1 = interpolate blend fromP toP (getEasingFunction (transitionEasing st) (rawProgress now st)) st"
  define st2 where "st2 = updateRippleVisibility (updateParticleVisibility (updateNodeColors st1))"
  define st3 where
    "st3 = (if \<bar>nodeCount st2 - int (length (nodes st2))\<bar> > 0 then recreateNodes st2 else st2)"
  have s2: "sameSettings st2 st1" unfolding st2_def by (rule visuals_settings)
  have "sameSettings st3 st2"
    unfolding st3_def using recreateNodes_settings sameSettings_refl by simp
  then have s3: "sameSettings st3 st1" using s2 by (rule sameSettings_trans)
  have "updateTransition_by blend now st =
       (if rawProgress now st \<ge> 1
        then st3\<lparr>isTransitioning := False, name := name toP, fromPreset := None, toPreset := None\<rparr>
        else st3)"
    unfolding updateTransition_by_def Let_def st3_def st2_def st1_def using assms by simp
  with s3 show ?thesis unfolding st1_def by (rule that)
qed

lemma interpolate_at_1_by:
  "getCurrentPreset (interpolate blend fromP toP 1 st) =
     \<lparr>name = name st,
      nodeCount = Math_round (blend (real_of_int (nodeCount fromP)) (real_of_int (nodeCount toP)) 1),
      nodeSpeed = blend (nodeSpeed fromP) (nodeSpeed toP) 1,
      activitySpeed = blend (activitySpeed fromP) (activitySpeed toP) 1,
      connectionOpacity = blend (connectionOpacity fromP) (connectionOpacity toP) 1,
      spaceSize = blend (spaceSize fromP) (spaceSize toP) 1,
      mouseInfluenceRadius = blend (mouseInfluenceRadius fromP) (mouseInfluenceRadius toP) 1,
      backgroundColor = backgroundColor toP, nodeColor = nodeColor toP,
      connectionColor = connectionColor toP,
      showAllConnections = showAllConnections toP,
      particleCount =
        Math_round (blend (real_of_int (particleCount fromP)) (real_of_int (particleCount toP)) 1),
      particleSpeed = blend (particleSpeed fromP) (particleSpeed toP) 1,
      particleSize = blend (particleSize fromP) (particleSize toP) 1,
      particleColor = particleColor toP, showParticles = showParticles toP,
      rippleIntensity = blend (rippleIntensity fromP) (rippleIntensity toP) 1,
      rippleDuration = blend (rippleDuration fromP) (rippleDuration toP) 1,
      rippleSize = blend (rippleSize fromP) (rippleSize toP) 1,
      rippleColor = rippleColor toP, showRipples = showRipples toP,
      wallRestitution = blend (wallRestitution fromP) (wallRestitution toP) 1,
      wallFriction = blend (wallFriction fromP) (wallFriction toP) 1\<rparr>"
  by (simp add: getCurrentPreset_def preset.truncate_def interpolate_def lerpColor_at_1)

lemma double_tenth: "toDouble (1 / 10) = 7205759403792794 / 2 ^ 56"
  by (subst toDouble_normal[where k = 56]) (simp_all add: roundHalfEven_def Let_def)

lemma double_difference:
  "toDouble (7205759403792794 / 2 ^ 56 - 1 / 2) = - 7205759403792794 / 2 ^ 54"
  by (subst toDouble_normal[where k = 54]) (simp_all add: roundHalfEven_def Let_def)

lemma double_product:
  "toDouble (- 7205759403792794 / 2 ^ 54 * 1) = - 7205759403792794 / 2 ^ 54"
  by (subst toDouble_normal[where k = 54]) (simp_all add: roundHalfEven_def Let_def)

lemma double_sum:
  "toDouble (1 / 2 + - 7205759403792794 / 2 ^ 54) = 7205759403792792 / 2 ^ 56"
  by (subst toDouble_normal[where k = 56]) (simp_all add: roundHalfEven_def Let_def)

lemma lerp_double_drift:
  "lerp_double (1 / 2) (toDouble (1 / 10)) 1 = 7205759403792792 / 2 ^ 56"
  unfolding lerp_double_def double_tenth double_difference double_product double_sum
  by (rule refl)

text \<open>
  C4, as stated, fails in double arithmetic: the update has no separate snap, it blends on
  the last frame too. From the state of the constructor (node speed 0.5), a transition to
  a preset with node speed 0.1 that started 2000 ms ago with a duration of 2 s completes
  with the node speed \<open>0.5 + (0.1 - 0.5) * 1\<close>, which rounds to
  \<open>7205759403792792 / 2 ^ 56\<close> (printed 0.09999999999999998), not to the double
  \<open>7205759403792794 / 2 ^ 56\<close> of 0.1.
\<close>

theorem transition_completion_counterexample:
  "isTransitioning (startTransition 0 slowPreset sampleState) \<and>
   fromPreset (startTransition 0 slowPreset sampleState) = Some (getCurrentPreset sampleState) \<and>
   toPreset (startTransition 0 slowPreset sampleState) = Some slowPreset \<and>
   rawProgress 2000 (startTransition 0 slowPreset sampleState) = 1 \<and>
   nodeSpeed (getCurrentPreset sampleState) = 1 / 2 \<and>
   nodeSpeed slowPreset = 7205759403792794 / 2 ^ 56 \<and>
   nodeSpeed (updateTransition_by lerp_double 2000 (startTransition 0 slowPreset sampleState)) =
     7205759403792792 / 2 ^ 56 \<and>
   nodeSpeed (updateTransition_by lerp_double 2000 (startTransition 0 slowPreset sampleState)) \<noteq>
     nodeSpeed slowPreset"
proof -
  let ?st = "startTransition 0 slowPreset sampleState"
  have i: "isTransitioning ?st" "fromPreset ?st = Some (getCurrentPreset sampleState)"
      "toPreset ?st = Some slowPreset"
    by (simp_all add: startTransition_def sampleState_def constructed_def)
  have p: "rawProgress 2000 ?st = 1"
    by (simp add: rawProgress_def startTransition_def sampleState_def constructed_def)
  have f: "nodeSpeed (getCurrentPreset sampleState) = 1 / 2"
    by (simp add: getCurrentPreset_def preset.truncate_def sampleState_def constructed_def)
  have t: "nodeSpeed slowPreset = 7205759403792794 / 2 ^ 56"
    by (simp add: slowPreset_def double_tenth)
  have t': "nodeSpeed slowPreset = toDouble (1 / 10)" by (simp add: slowPreset_def)
  obtain st3 where
    s: "sameSettings st3
       (interpolate lerp_double (getCurrentPreset sampleState) slowPreset
          (getEasingFunction (transitionEasing ?st) (rawProgress 2000 ?st)) ?st)"
    and u: "updateTransition_by lerp_double 2000 ?st =
       (if rawProgress 2000 ?st \<ge> 1
        then st3\<lparr>isTransitioning := False, name := name slowPreset, fromPreset := None,
                 toPreset := None\<rparr>
        else st3)"
    using updateTransition_by_unfold[OF i] by blast
  have "nodeSpeed (updateTransition_by lerp_double 2000 ?st) = nodeSpeed st3"
    unfolding u p by simp
  also have "\<dots> = nodeSpeed (getCurrentPreset st3)"
    by (simp add: getCurrentPreset_def preset.truncate_def)
  also have "\<dots> = nodeSpeed (getCurrentPreset
       (interpolate lerp_double (getCurrentPreset sampleState) slowPreset 1 ?st))"
    using s unfolding p by (simp add: sameSettings_def easing_at_1)
  also have "\<dots> = lerp_double (nodeSpeed (getCurrentPreset sampleState)) (nodeSpeed slowPreset) 1"
    unfolding interpolate_at_1_by by simp
  also have "\<dots> = 7205759403792792 / 2 ^ 56"
    unfolding f t' by (rule lerp_double_drift)
  finally have r: "nodeSpeed (updateTransition_by lerp_double 2000 ?st) = 7205759403792792 / 2 ^ 56" .
  have ne: "nodeSpeed (updateTransition_by lerp_double 2000 ?st) \<noteq> nodeSpeed slowPreset"
    unfolding r t by simp
  show ?thesis using i p f t r ne by blast
qed

text \<open>
  C4, amended. When the raw progress reaches 1, the update leaves the state Idle, clears
  the stored presets, sets the name to the name of the target, and sets every colour and
  every toggle to the value of the target; each scalar is the blend of the two presets at
  \<open>t = 1\<close> (rounded to an integer for the two counts), whatever the blend function.
  With the blend in exact arithmetic this is the value of the target: the current preset
  is the target.
\<close>

theorem transition_completion:
  assumes "isTransitioning st" and "fromPreset st = Some fromP" and "toPreset st = Some toP"
    and "rawProgress now st = 1"
  shows "getCurrentPreset (updateTransition_by blend now st) =
     \<lparr>name = name toP,
      nodeCount = Math_round (blend (real_of_int (nodeCount fromP)) (real_of_int (nodeCount toP)) 1),
      nodeSpeed = blend (nodeSpeed fromP) (nodeSpeed toP) 1,
      activitySpeed = blend (activitySpeed fromP) (activitySpeed toP) 1,
      connectionOpacity = blend (connectionOpacity fromP) (connectionOpacity toP) 1,
      spaceSize = blend (spaceSize fromP) (spaceSize toP) 1,
      mouseInfluenceRadius = blend (mouseInfluenceRadius fromP) (mouseInfluenceRadius toP) 1,
      backgroundColor = backgroundColor toP, nodeColor = nodeColor toP,
      connectionColor = connectionColor toP,
      showAllConnections = showAllConnections toP,
      particleCount =
        Math_round (blend (real_of_int (particleCount fromP)) (real_of_int (particleCount toP)) 1),
      particleSpeed = blend (particleSpeed fromP) (particleSpeed toP) 1,
      particleSize = blend (particleSize fromP) (particleSize toP) 1,
      particleColor = particleColor toP, showParticles = showParticles toP,
      rippleIntensity = blend (rippleIntensity fromP) (rippleIntensity toP) 1,
      rippleDuration = blend (rippleDuration fromP) (rippleDuration toP) 1,
      rippleSize = blend (rippleSize fromP) (rippleSize toP) 1,
      rippleColor = rippleColor toP, showRipples = showRipples toP,
      wallRestitution = blend (wallRestitution fromP) (wallRestitution toP) 1,
      wallFriction = blend (wallFriction fromP) (wallFriction toP) 1\<rparr> \<and>
     \<not> isTransitioning (updateTransition_by blend now st) \<and>
     fromPreset (updateTransition_by blend now st) = None \<and>
     toPreset (updateTransition_by blend now st) = None \<and>
     getCurrentPreset (updateTransition now st) = toP"
proof -
  have fin: "\<And>bl. \<exists>st3. getCurrentPreset st3 = getCurrentPreset (interpolate bl fromP toP 1 st) \<and>
      updateTransition_by bl now st =
        st3\<lparr>isTransitioning := False, name := name toP, fromPreset := None, toPreset := None\<rparr>"
  proof -
    fix bl
    obtain st3 where
      s: "sameSettings st3
         (interpolate bl fromP toP (getEasingFunction (transitionEasing st) (rawProgress now st)) st)"
      and u: "updateTransition_by bl now st =
         (if rawProgress now st \<ge> 1
          then st3\<lparr>isTransitioning := False, name := name toP, fromPreset := None, toPreset := None\<rparr>
          else st3)"
      using updateTransition_by_unfold[OF assms(1-3)] by blast
    have "getCurrentPreset st3 = getCurrentPreset (interpolate bl fromP toP 1 st)"
      using s assms(4) by (simp add: sameSettings_def easing_at_1)
    moreover have "updateTransition_by bl now st =
        st3\<lparr>isTransitioning := False, name := name toP, fromPreset := None, toPreset := None\<rparr>"
      using u assms(4) by simp
    ultimately show "\<exists>st3. getCurrentPreset st3 = getCurrentPreset (interpolate bl fromP toP 1 st) \<and>
      updateTransition_by bl now st =
        st3\<lparr>isTransitioning := False, name := name toP, fromPreset := None, toPreset := None\<rparr>"
      by blast
  qed
  obtain a where a: "getCurrentPreset a = getCurrentPreset (interpolate blend fromP toP 1 st)"
      "updateTransition_by blend now st =
        a\<lparr>isTransitioning := False, name := name toP, fromPreset := None, toPreset := None\<rparr>"
    using fin[of blend] by blast
  obtain b where b: "getCurrentPreset b = getCurrentPreset (interpolate lerp fromP toP 1 st)"
      "updateTransition_by lerp now st =
        b\<lparr>isTransitioning := False, name := name toP, fromPreset := None, toPreset := None\<rparr>"
    using fin[of lerp] by blast
  have g: "getCurrentPreset (updateTransition_by blend now st) =
        (getCurrentPreset (interpolate blend fromP toP 1 st))\<lparr>name := name toP\<rparr>"
    unfolding a(2) getCurrentPreset_finish a(1) by (rule refl)
  have e: "getCurrentPreset (updateTransition now st) = toP"
    unfolding updateTransition_def b(2) getCurrentPreset_finish b(1) interpolate_at_1 by simp
  have i: "\<not> isTransitioning (updateTransition_by blend now st) \<and>
     fromPreset (updateTransition_by blend now st) = None \<and>
     toPreset (updateTransition_by blend now st) = None"
    unfolding a(2) by simp
  show ?thesis using i e unfolding g interpolate_at_1_by by simp
qed

theorem transition_completion_witness:
  "isTransitioning inFlight \<and> fromPreset inFlight = Some (getCurrentPreset sampleState) \<and>
   toPreset inFlight = Some targetPreset \<and> rawProgress 2000 inFlight = 1 \<and>
   getCurrentPreset (updateTransition 2000 inFlight) = targetPreset \<and>
   \<not> isTransitioning (updateTransition 2000 inFlight) \<and>
   fromPreset (updateTransition 2000 inFlight) = None \<and>
   toPreset (updateTransition 2000 inFlight) = None"
proof -
  have i: "isTransitioning inFlight" "fromPreset inFlight = Some (getCurrentPreset sampleState)"
      "toPreset inFlight = Some targetPreset"
    using inFlight_transitioning by simp_all
  have p: "rawProgress 2000 inFlight = 1"
    using inFlight_transitioning by (simp add: rawProgress_def)
  note t = transition_completion[OF i p, of lerp]
  have e: "getCurrentPreset (updateTransition 2000 inFlight) = targetPreset"
    using t by blast
  have n: "\<not> isTransitioning (updateTransition 2000 inFlight) \<and>
     fromPreset (updateTransition 2000 inFlight) = None \<and>
     toPreset (updateTransition 2000 inFlight) = None"
    unfolding updateTransition_def using t by blast
  show ?thesis using i p e n by blast
qed

lemma elastic_at_085: "elastic (17 / 20) = - (2 powr (- 3 / 2))"
proof -
  have a: "(17 / 20 * 10 - 10.75) * (2 * pi / 3) = - (3 / 2 * pi)" by simp
  have "sin (- (3 / 2 * pi)) = 1" by (simp only: sin_minus sin_3over2_pi minus_minus)
  then have s: "sin ((17 / 20 * 10 - 10.75) * (2 * pi / 3)) = 1" by (simp only: a)
  have e: "10 * (17 / 20) - 10 = (- 3 / 2 :: real)" by simp
  show ?thesis unfolding elastic_def Let_def s e by simp
qed

lemma two_powr_bounds:
  "(0.35 :: real) < 2 powr (- 3 / 2) \<and> 2 powr (- 3 / 2) < (0.36 :: real)"
proof -
  let ?x = "2 powr (- 3 / 2) :: real"
  have p: "0 < ?x" by simp
  have "?x * ?x = 2 powr (- 3 / 2 + - 3 / 2)" by (simp only: powr_add)
  also have "\<dots> = 2 powr (- 3)" by simp
  also have "\<dots> = 1 / 8" by (simp add: powr_minus_divide)
  finally have sq: "?x ^ 2 = 1 / 8" by (simp add: power2_eq_square)
  have "(0.35 :: real) ^ 2 < ?x ^ 2" unfolding sq by (simp add: power2_eq_square)
  then have l: "0.35 < ?x" by (rule power2_less_imp_less) simp
  have "?x ^ 2 < (0.36 :: real) ^ 2" unfolding sq by (simp add: power2_eq_square)
  then have u: "?x < 0.36" by (rule power2_less_imp_less) simp
  show ?thesis using l u by blast
qed

lemma nodeSpeed_settings: "sameSettings a b \<Longrightarrow> nodeSpeed a = nodeSpeed b"
proof -
  assume "sameSettings a b"
  then have "nodeSpeed (getCurrentPreset a) = nodeSpeed (getCurrentPreset b)"
    by (simp add: sameSettings_def)
  then show ?thesis by (simp add: getCurrentPreset_def preset.truncate_def)
qed

text \<open>
  C10. The elastic curve is negative inside the interval: at 0.85 its value is
  \<open>- 2 powr (- 3 / 2)\<close>, between -0.36 and -0.35. The eased progress is used as it is,
  so in an elastic transition with a lower node speed in the source than in the target
  there is a time of the frame at which the node speed is below that of the source.
\<close>

theorem elastic_undershoot:
  assumes "isTransitioning st" and "fromPreset st = Some fromP" and "toPreset st = Some toP"
    and "transitionEasing st = ''elastic''" and "0 < transitionDuration st"
    and "nodeSpeed fromP < nodeSpeed toP"
  shows "getEasingFunction ''elastic'' (17 / 20) = - (2 powr (- 3 / 2)) \<and>
         - 0.36 < getEasingFunction ''elastic'' (17 / 20) \<and>
         getEasingFunction ''elastic'' (17 / 20) < - 0.35 \<and>
         (\<exists>now. rawProgress now st = 17 / 20 \<and>
            nodeSpeed (updateTransition now st) =
              lerp (nodeSpeed fromP) (nodeSpeed toP) (getEasingFunction ''elastic'' (rawProgress now st)) \<and>
            nodeSpeed (updateTransition now st) < nodeSpeed fromP)"
proof -
  have v: "getEasingFunction ''elastic'' (17 / 20) = - (2 powr (- 3 / 2))"
    by (simp add: getEasingFunction_def elastic_at_085)
  have b: "- 0.36 < getEasingFunction ''elastic'' (17 / 20)"
      "getEasingFunction ''elastic'' (17 / 20) < - 0.35"
    unfolding v using two_powr_bounds by linarith+
  define now where "now = transitionStartTime st + 850 * transitionDuration st"
  have p: "rawProgress now st = 17 / 20"
    using assms(5) by (simp add: rawProgress_def now_def Let_def)
  obtain st3 where
    s: "sameSettings st3
       (interpolate lerp fromP toP (getEasingFunction (transitionEasing st) (rawProgress now st)) st)"
    and u: "updateTransition_by lerp now st =
       (if rawProgress now st \<ge> 1
        then st3\<lparr>isTransitioning := False, name := name toP, fromPreset := None, toPreset := None\<rparr>
        else st3)"
    using updateTransition_by_unfold[OF assms(1-3)] by blast
  have "updateTransition now st = st3" using u p by (simp add: updateTransition_def)
  then have "nodeSpeed (updateTransition now st) =
      nodeSpeed (interpolate lerp fromP toP (getEasingFunction (transitionEasing st) (rawProgress now st)) st)"
    using nodeSpeed_settings[OF s] by simp
  then have n: "nodeSpeed (updateTransition now st) =
      lerp (nodeSpeed fromP) (nodeSpeed toP) (getEasingFunction ''elastic'' (rawProgress now st))"
    by (simp add: interpolate_def assms(4))
  have "(nodeSpeed toP - nodeSpeed fromP) * getEasingFunction ''elastic'' (17 / 20) < 0"
    using assms(6) b(2) by (simp add: mult_pos_neg)
  then have "lerp (nodeSpeed fromP) (nodeSpeed toP) (getEasingFunction ''elastic'' (17 / 20)) < nodeSpeed fromP"
    by (simp add: lerp_def)
  then have l: "nodeSpeed (updateTransition now st) < nodeSpeed fromP" using n p by simp
  show ?thesis using v b p n l by blast
qed

theorem elastic_undershoot_witness:
  "isTransitioning elasticFlight \<and> transitionEasing elasticFlight = ''elastic'' \<and>
   0 < transitionDuration elasticFlight \<and>
   nodeSpeed (getCurrentPreset (sampleState\<lparr>transitionEasing := ''elastic''\<rparr>)) < nodeSpeed targetPreset \<and>
   (\<exists>now. rawProgress now elasticFlight = 17 / 20 \<and>
      nodeSpeed (updateTransition now elasticFlight) <
        nodeSpeed (getCurrentPreset (sampleState\<lparr>transitionEasing := ''elastic''\<rparr>)))"
proof -
  let ?f = "getCurrentPreset (sampleState\<lparr>transitionEasing := ''elastic''\<rparr>)"
  have i: "isTransitioning elasticFlight" "fromPreset elasticFlight = Some ?f"
      "toPreset elasticFlight = Some targetPreset" "transitionEasing elasticFlight = ''elastic''"
      "0 < transitionDuration elasticFlight"
    by (simp_all add: elasticFlight_def startTransition_def sampleState_def constructed_def)
  have l: "nodeSpeed ?f < nodeSpeed targetPreset"
    by (simp add: getCurrentPreset_def preset.truncate_def sampleState_def constructed_def
          targetPreset_def)
  note t = elastic_undershoot[OF i l]
  have "\<exists>now. rawProgress now elasticFlight = 17 / 20 \<and>
      nodeSpeed (updateTransition now elasticFlight) < nodeSpeed ?f"
    using t by blast
  then show ?thesis using i l by blast
qed

section \<open>The spatial sampler: properties\<close>

lemma random_valid:
  assumes "validRng g" and "random g = (r, g')"
  shows "0 \<le> r \<and> r < 1 \<and> validRng g'"
  using assms by (auto simp: random_def validRng_def)

lemma scaled_draw:
  fixes r w :: real
  assumes "0 \<le> r" "r < 1" "0 < w"
  shows "\<bar>(r - 0.5) * w\<bar> \<le> w / 2"
proof -
  have u: "(r - 1 / 2) * w \<le> (1 / 2) * w"
    by (rule mult_right_mono) (use assms in simp_all)
  have l: "(- (1 / 2)) * w \<le> (r - 1 / 2) * w"
    by (rule mult_right_mono) (use assms in simp_all)
  show ?thesis using u l by (simp add: abs_le_iff)
qed

lemma randomPoint_inExtents:
  assumes "validRng g" and "0 < width" "0 < height" "0 < depth"
    and "randomPoint width height depth g = (p, g')"
  shows "inExtents width height depth p \<and> validRng g'"
proof -
  obtain r1 g1 where a: "random g = (r1, g1)" by (cases "random g")
  obtain r2 g2 where b: "random g1 = (r2, g2)" by (cases "random g1")
  obtain r3 g3 where c: "random g2 = (r3, g3)" by (cases "random g2")
  note va = random_valid[OF assms(1) a]
  note vb = random_valid[OF _ b]
  note vc = random_valid[OF _ c]
  have p: "p = Vector3 ((r1 - 0.5) * width) ((r2 - 0.5) * height) ((r3 - 0.5) * depth)" "g' = g3"
    using assms(5) by (simp_all add: randomPoint_def a b c)
  have "\<bar>(r1 - 0.5) * width\<bar> \<le> width / 2"
    by (rule scaled_draw) (use va assms(2) in simp_all)
  moreover have "\<bar>(r2 - 0.5) * height\<bar> \<le> height / 2"
    by (rule scaled_draw) (use va vb assms(3) in simp_all)
  moreover have "\<bar>(r3 - 0.5) * depth\<bar> \<le> depth / 2"
    by (rule scaled_draw) (use va vb vc assms(4) in simp_all)
  moreover have "validRng g3" using va vb vc by simp
  ultimately show ?thesis using p by (simp add: inExtents_def Vector3_def)
qed

lemma attempts_inExtents:
  assumes "0 < width" "0 < height" "0 < depth"
  shows "validRng g \<Longrightarrow> attempts k sep width height depth points g = (res, g') \<Longrightarrow>
         validRng g' \<and> (\<forall>c. res = Some c \<longrightarrow> inExtents width height depth c)"
proof (induction k arbitrary: g)
  case 0
  then show ?case by simp
next
  case (Suc k)
  obtain c g1 where r: "randomPoint width height depth g = (c, g1)"
    by (cases "randomPoint width height depth g")
  note v = randomPoint_inExtents[OF Suc.prems(1) assms r]
  show ?case
  proof (cases "validPosition c points sep")
    case True
    then have "res = Some c" "g' = g1" using Suc.prems(2) r by simp_all
    then show ?thesis using v by simp
  next
    case False
    then have "attempts k sep width height depth points g1 = (res, g')"
      using Suc.prems(2) r by simp
    then show ?thesis using Suc.IH v by blast
  qed
qed

lemma placeNext_inExtents:
  assumes "0 < width" "0 < height" "0 < depth" and "validRng g"
    and "placeNext minDistance width height depth points g = (p, g')"
  shows "inExtents width height depth p \<and> validRng g'"
proof -
  obtain r1 g1 where a: "attempts maxAttempts minDistance width height depth points g = (r1, g1)"
    by (cases "attempts maxAttempts minDistance width height depth points g")
  note va = attempts_inExtents[OF assms(1-4) a]
  show ?thesis
  proof (cases r1)
    case (Some c)
    then show ?thesis using assms(5) a va by (simp add: placeNext_def)
  next
    case None
    obtain r2 g2 where b:
      "attempts maxAttempts (minDistance * 0.9) width height depth points g1 = (r2, g2)"
      by (cases "attempts maxAttempts (minDistance * 0.9) width height depth points g1")
    have vg1: "validRng g1" using va by simp
    note vb = attempts_inExtents[OF assms(1-3) vg1 b]
    show ?thesis
    proof (cases r2)
      case (Some c)
      then show ?thesis using assms(5) a b None vb by (simp add: placeNext_def Let_def)
    next
      case N2: None
      have vg2: "validRng g2" using vb by simp
      have "randomPoint width height depth g2 = (p, g')"
        using assms(5) a b None N2 by (simp add: placeNext_def Let_def)
      from randomPoint_inExtents[OF vg2 assms(1-3) this] show ?thesis .
    qed
  qed
qed

lemma samplingLoop_result:
  "0 < width \<Longrightarrow> 0 < height \<Longrightarrow> 0 < depth \<Longrightarrow> validRng g \<Longrightarrow> list_all (inExtents width height depth) points \<Longrightarrow>
         int (length points) \<le> numPoints \<Longrightarrow>
         samplingLoop numPoints minDistance width height depth points g = (res, g') \<Longrightarrow>
         int (length res) = numPoints \<and> list_all (inExtents width height depth) res \<and> validRng g'"
proof (induction numPoints minDistance width height depth points g rule: samplingLoop.induct)
  case (1 numPoints minDistance width height depth points g)
  show ?case
  proof (cases "int (length points) < numPoints")
    case True
    obtain p g1 where pn: "placeNext minDistance width height depth points g = (p, g1)"
      by (cases "placeNext minDistance width height depth points g")
    note v = placeNext_inExtents[OF "1.prems"(1-3) "1.prems"(4) pn]
    have rec: "samplingLoop numPoints minDistance width height depth (points @ [p]) g1 = (res, g')"
      using "1.prems"(7) True pn
      by (simp add: samplingLoop.simps[of numPoints minDistance width height depth points g])
    have la: "list_all (inExtents width height depth) (points @ [p])"
      using "1.prems"(5) v by simp
    have le: "int (length (points @ [p])) \<le> numPoints" using True by simp
    show ?thesis
      using "1.IH"[OF True pn[symmetric] refl "1.prems"(1-3) _ la le rec] v by simp
  next
    case False
    then have "res = points" "g' = g" using "1.prems"(7)
      by (simp_all add: samplingLoop.simps[of numPoints minDistance width height depth points g])
    then show ?thesis using False "1.prems" by simp
  qed
qed

lemma random_draws: "random g = (r, g') \<Longrightarrow> randPos g' = randPos g + 1"
  by (auto simp: random_def)

lemma randomPoint_draws:
  assumes "randomPoint width height depth g = (p, g')"
  shows "randPos g' = randPos g + 3"
proof -
  obtain r1 g1 where a: "random g = (r1, g1)" by (cases "random g")
  obtain r2 g2 where b: "random g1 = (r2, g2)" by (cases "random g1")
  obtain r3 g3 where c: "random g2 = (r3, g3)" by (cases "random g2")
  have "g' = g3" using assms by (simp add: randomPoint_def a b c)
  then show ?thesis using random_draws[OF a] random_draws[OF b] random_draws[OF c] by simp
qed

lemma attempts_draws:
  "attempts k sep width height depth points g = (res, g') \<Longrightarrow> randPos g' \<le> randPos g + 3 * k"
proof (induction k arbitrary: g)
  case 0
  then show ?case by simp
next
  case (Suc k)
  obtain c g1 where r: "randomPoint width height depth g = (c, g1)"
    by (cases "randomPoint width height depth g")
  note d = randomPoint_draws[OF r]
  show ?case
  proof (cases "validPosition c points sep")
    case True
    then have "g' = g1" using Suc.prems r by simp
    then show ?thesis using d by simp
  next
    case False
    then have "attempts k sep width height depth points g1 = (res, g')"
      using Suc.prems r by simp
    from Suc.IH[OF this] show ?thesis using d by simp
  qed
qed

lemma placeNext_draws:
  assumes "placeNext minDistance width height depth points g = (p, g')"
  shows "randPos g' \<le> randPos g + 183"
proof -
  obtain r1 g1 where a: "attempts maxAttempts minDistance width height depth points g = (r1, g1)"
    by (cases "attempts maxAttempts minDistance width height depth points g")
  have da: "randPos g1 \<le> randPos g + 90" using attempts_draws[OF a] by (simp add: maxAttempts_def)
  show ?thesis
  proof (cases r1)
    case (Some c)
    then have "g' = g1" using assms a by (simp add: placeNext_def)
    then show ?thesis using da by simp
  next
    case None
    obtain r2 g2 where b:
      "attempts maxAttempts (minDistance * 0.9) width height depth points g1 = (r2, g2)"
      by (cases "attempts maxAttempts (minDistance * 0.9) width height depth points g1")
    have db: "randPos g2 \<le> randPos g1 + 90" using attempts_draws[OF b] by (simp add: maxAttempts_def)
    show ?thesis
    proof (cases r2)
      case (Some c)
      then have "g' = g2" using assms a b None by (simp add: placeNext_def Let_def)
      then show ?thesis using da db by simp
    next
      case N2: None
      have "randomPoint width height depth g2 = (p, g')"
        using assms a b None N2 by (simp add: placeNext_def Let_def)
      from randomPoint_draws[OF this] show ?thesis using da db by simp
    qed
  qed
qed

lemma samplingLoop_draws:
  "int (length points) \<le> numPoints \<Longrightarrow>
   samplingLoop numPoints minDistance width height depth points g = (res, g') \<Longrightarrow>
   randPos g' \<le> randPos g + 183 * (nat numPoints - length points)"
proof (induction numPoints minDistance width height depth points g rule: samplingLoop.induct)
  case (1 numPoints minDistance width height depth points g)
  show ?case
  proof (cases "int (length points) < numPoints")
    case True
    obtain p g1 where pn: "placeNext minDistance width height depth points g = (p, g1)"
      by (cases "placeNext minDistance width height depth points g")
    have rec: "samplingLoop numPoints minDistance width height depth (points @ [p]) g1 = (res, g')"
      using "1.prems"(2) True pn
      by (simp add: samplingLoop.simps[of numPoints minDistance width height depth points g])
    have le: "int (length (points @ [p])) \<le> numPoints" using True by simp
    have "randPos g' \<le> randPos g1 + 183 * (nat numPoints - length (points @ [p]))"
      using "1.IH"[OF True pn[symmetric] refl le rec] .
    moreover have "nat numPoints - length points = Suc (nat numPoints - length (points @ [p]))"
      using True by simp
    ultimately show ?thesis using placeNext_draws[OF pn] by simp
  next
    case False
    then have "g' = g" using "1.prems"(2)
      by (simp add: samplingLoop.simps[of numPoints minDistance width height depth points g])
    then show ?thesis by simp
  qed
qed

lemma sampler_draws:
  assumes "0 \<le> numPoints"
  shows "randPos (snd (generatePoissonDiskSampling numPoints width height depth g)) \<le>
         randPos g + 183 * nat numPoints"
proof -
  define minDistance where
    "minDistance = min width (min height depth) / sqrt (real_of_int numPoints) * 0.8"
  obtain points g1 where first:
    "(if 0 < numPoints
      then (case randomPoint width height depth g of (p, g') \<Rightarrow> ([p], g'))
      else ([], g)) = (points, g1)"
    by (cases "(if 0 < numPoints
      then (case randomPoint width height depth g of (p, g') \<Rightarrow> ([p], g'))
      else ([], g))")
  obtain res g2 where loop:
    "samplingLoop numPoints minDistance width height depth points g1 = (res, g2)"
    by (cases "samplingLoop numPoints minDistance width height depth points g1")
  have gen: "generatePoissonDiskSampling numPoints width height depth g = (res, g2)"
    unfolding generatePoissonDiskSampling_def Let_def minDistance_def[symmetric] first
      prod.case loop
    by (rule refl)
  have start: "int (length points) \<le> numPoints \<and>
               randPos g1 + 183 * (nat numPoints - length points) \<le> randPos g + 183 * nat numPoints"
  proof (cases "numPoints > 0")
    case True
    obtain p g' where r: "randomPoint width height depth g = (p, g')"
      by (cases "randomPoint width height depth g")
    have "points = [p]" "g1 = g'" using first True r by simp_all
    then show ?thesis using randomPoint_draws[OF r] True by simp
  next
    case False
    then have "points = []" "g1 = g" using first by simp_all
    then show ?thesis using assms by simp
  qed
  have "randPos g2 \<le> randPos g1 + 183 * (nat numPoints - length points)"
    using samplingLoop_draws[OF _ loop] start by simp
  then show ?thesis using gen start by simp
qed

text \<open>
  C8. For every count \<open>n \<ge> 0\<close> and positive extents the sampler returns exactly \<open>n\<close>
  positions, each within the box of these full extents centred at the origin. The
  sampler is a total function: every round of its loop places one point, after at most
  30 candidates at the target distance and 30 at the relaxed distance, so it makes at
  most \<open>183 * n\<close> draws (61 positions of three draws for each point).
\<close>

theorem sampler_total:
  assumes "0 \<le> numPoints" and "0 < width" and "0 < height" and "0 < depth" and "validRng g"
  shows "length (fst (generatePoissonDiskSampling numPoints width height depth g)) = nat numPoints \<and>
         (\<forall>p \<in> set (fst (generatePoissonDiskSampling numPoints width height depth g)).
            inExtents width height depth p) \<and>
         randPos (snd (generatePoissonDiskSampling numPoints width height depth g)) \<le>
           randPos g + 183 * nat numPoints"
proof -
  define minDistance where
    "minDistance = min width (min height depth) / sqrt (real_of_int numPoints) * 0.8"
  obtain points g1 where first:
    "(if 0 < numPoints
      then (case randomPoint width height depth g of (p, g') \<Rightarrow> ([p], g'))
      else ([], g)) = (points, g1)"
    by (cases "(if 0 < numPoints
      then (case randomPoint width height depth g of (p, g') \<Rightarrow> ([p], g'))
      else ([], g))")
  obtain res g2 where loop:
    "samplingLoop numPoints minDistance width height depth points g1 = (res, g2)"
    by (cases "samplingLoop numPoints minDistance width height depth points g1")
  have gen: "generatePoissonDiskSampling numPoints width height depth g = (res, g2)"
    unfolding generatePoissonDiskSampling_def Let_def minDistance_def[symmetric] first
      prod.case loop
    by (rule refl)
  have start: "validRng g1 \<and> list_all (inExtents width height depth) points \<and>
               int (length points) \<le> numPoints"
  proof (cases "numPoints > 0")
    case True
    obtain p g' where r: "randomPoint width height depth g = (p, g')"
      by (cases "randomPoint width height depth g")
    have "points = [p]" "g1 = g'" using first True r by simp_all
    then show ?thesis using randomPoint_inExtents[OF assms(5) assms(2-4) r] True by simp
  next
    case False
    then have "points = []" "g1 = g" using first by simp_all
    then show ?thesis using assms by simp
  qed
  have "int (length res) = numPoints \<and> list_all (inExtents width height depth) res"
    using samplingLoop_result[OF assms(2-4) _ _ _ loop] start by simp
  then show ?thesis using gen sampler_draws[OF assms(1), of width height depth g]
    by (auto simp: list_all_iff)
qed

theorem sampler_total_witness:
  "validRng sampleRng \<and>
   length (fst (generatePoissonDiskSampling 12 40 30 16 sampleRng)) = 12 \<and>
   list_all (inExtents 40 30 16) (fst (generatePoissonDiskSampling 12 40 30 16 sampleRng)) \<and>
   randPos (snd (generatePoissonDiskSampling 12 40 30 16 sampleRng)) \<le> 2196"
proof -
  have v: "validRng sampleRng" by (simp add: validRng_def sampleRng_def)
  have z: "randPos sampleRng = 0" by (simp add: sampleRng_def)
  show ?thesis using v z sampler_total[of 12 40 30 16 sampleRng]
    by (simp add: list_all_iff)
qed

end
